theory Spec2Isabelle
  imports Main "HOL-Library.Word" "HOL-Library.List_Lexorder"
begin

unbundle bit_operations_syntax

section \<open>The value layer consumed by document/compare.go\<close>

text \<open>
  Modelled from the spec: the declaration of the type tags is not part of compare.go.
  The closed set of tags of section 3: Null, Bool, the signed and unsigned integer widths,
  Float64, String and Bytes. compare.go itself names \<open>NullValue\<close>, \<open>StringValue\<close>,
  \<open>BytesValue\<close> and \<open>Uint64Value\<close>.
\<close>

datatype ValueType =
    NullValue | BoolValue
  | Int8Value | Int16Value | Int32Value | Int64Value
  | Uint8Value | Uint16Value | Uint32Value | Uint64Value
  | Float64Value | StringValue | BytesValue

text \<open>
  Modelled from the spec: \<open>IsInteger\<close> holds of every signed and unsigned integer tag,
  \<open>IsNumber\<close> of those and of Float64 (section 3); their Go bodies are not in compare.go.
\<close>

fun IsInteger :: "ValueType \<Rightarrow> bool" where
  "IsInteger Int8Value = True"
| "IsInteger Int16Value = True"
| "IsInteger Int32Value = True"
| "IsInteger Int64Value = True"
| "IsInteger Uint8Value = True"
| "IsInteger Uint16Value = True"
| "IsInteger Uint32Value = True"
| "IsInteger Uint64Value = True"
| "IsInteger _ = False"

definition IsNumber :: "ValueType \<Rightarrow> bool" where
  "IsNumber t \<longleftrightarrow> IsInteger t \<or> t = Float64Value"

type_synonym byte = "8 word"

text \<open>A \<open>Value\<close> is a tag and the raw encoded payload (a Go byte slice).\<close>

record Value =
  Type :: ValueType
  Data :: "byte list"

text \<open>
  Go's \<open>int64\<close> and \<open>uint64\<close> are both 64-bit words; the signed reading uses the
  signed orders \<open><s\<close> and \<open>\<le>s\<close>, the unsigned one the orders \<open><\<close> and \<open>\<le>\<close> of words.
  A \<open>float64\<close> is its IEEE-754 binary64 bit pattern (what \<open>math.Float64bits\<close> returns).
\<close>

type_synonym int64 = "64 word"
type_synonym uint64 = "64 word"
type_synonym float64 = "64 word"

text \<open>
  The dynamic value inside the \<open>interface{}\<close> that \<open>Decode\<close> returns: a boolean, one of
  the integer widths, a float64, a string or a byte sequence (section 6); \<open>NNil\<close> is the
  nil interface.
\<close>

datatype native =
    NNil | NBool bool
  | NInt8 "8 word" | NInt16 "16 word" | NInt32 "32 word" | NInt64 int64
  | NUint8 "8 word" | NUint16 "16 word" | NUint32 "32 word" | NUint64 uint64
  | NFloat64 float64 | NString "byte list" | NBytes "byte list"

text \<open>
  What a call of \<open>compare\<close> can end with other than a boolean: the error a decode routine
  returned (carried as it is), or the run-time panic of a failed type assertion
  \<open>lv.(uint64)\<close>.
\<close>

datatype error = DecodeError string | TypeAssertionPanic

text \<open>
  The three decode routines of the value layer (\<open>Value.Decode\<close>, \<open>Value.DecodeToInt64\<close>,
  \<open>Value.DecodeToFloat64\<close>) are outside compare.go; \<open>compare\<close> takes them as a parameter.
\<close>

record decoders =
  Decode :: "Value \<Rightarrow> error + native"
  DecodeToInt64 :: "Value \<Rightarrow> error + int64"
  DecodeToFloat64 :: "Value \<Rightarrow> error + float64"

section \<open>Go primitives used by compare\<close>

text \<open>
  \<open>bytes.Compare\<close>: -1, 0 or +1 as the first slice is lexicographically below, equal to or
  above the second; bytes compare unsigned, a proper prefix is below, and a nil slice is an
  empty one. \<open>bytes.Equal\<close> is equality of the two byte sequences.
\<close>

fun bytes_Compare :: "byte list \<Rightarrow> byte list \<Rightarrow> int" where
  "bytes_Compare [] [] = 0"
| "bytes_Compare [] (y # ys) = - 1"
| "bytes_Compare (x # xs) [] = 1"
| "bytes_Compare (x # xs) (y # ys) =
     (if x < y then - 1 else if y < x then 1 else bytes_Compare xs ys)"

definition bytes_Equal :: "byte list \<Rightarrow> byte list \<Rightarrow> bool" where
  "bytes_Equal a b \<longleftrightarrow> a = b"

text \<open>
  Go's comparison operators on \<open>float64\<close> are those of IEEE-754. A bit pattern has a sign
  (bit 63), a biased exponent (bits 52 to 62) and a fraction (bits 0 to 51). It is a NaN when
  the exponent is 2047 and the fraction is not 0. \<open>f64_scaled\<close> is the represented number
  times \<open>2 ^ 1074\<close>, an integer: the fraction itself for a subnormal, and
  \<open>(2 ^ 52 + fraction) * 2 ^ (exponent - 1)\<close> otherwise; the same formula puts the two
  infinities (exponent 2047, fraction 0) beyond every finite number. Both zeros scale to 0.
  A comparison with a NaN operand is false; otherwise the numbers are compared.
\<close>

definition f64_exponent :: "float64 \<Rightarrow> nat" where
  "f64_exponent w = unat (take_bit 11 (drop_bit 52 w))"

definition f64_fraction :: "float64 \<Rightarrow> nat" where
  "f64_fraction w = unat (take_bit 52 w)"

definition f64_isNaN :: "float64 \<Rightarrow> bool" where
  "f64_isNaN w \<longleftrightarrow> f64_exponent w = 2047 \<and> f64_fraction w \<noteq> 0"

definition f64_magnitude :: "float64 \<Rightarrow> int" where
  "f64_magnitude w =
     (if f64_exponent w = 0 then int (f64_fraction w)
      else int (2 ^ 52 + f64_fraction w) * 2 ^ (f64_exponent w - 1))"

definition f64_scaled :: "float64 \<Rightarrow> int" where
  "f64_scaled w = (if bit w 63 then - f64_magnitude w else f64_magnitude w)"

definition f64_eq :: "float64 \<Rightarrow> float64 \<Rightarrow> bool" where
  "f64_eq a b \<longleftrightarrow> \<not> f64_isNaN a \<and> \<not> f64_isNaN b \<and> f64_scaled a = f64_scaled b"

definition f64_lt :: "float64 \<Rightarrow> float64 \<Rightarrow> bool" where
  "f64_lt a b \<longleftrightarrow> \<not> f64_isNaN a \<and> \<not> f64_isNaN b \<and> f64_scaled a < f64_scaled b"

definition f64_le :: "float64 \<Rightarrow> float64 \<Rightarrow> bool" where
  "f64_le a b \<longleftrightarrow> \<not> f64_isNaN a \<and> \<not> f64_isNaN b \<and> f64_scaled a \<le> f64_scaled b"

definition f64_gt :: "float64 \<Rightarrow> float64 \<Rightarrow> bool" where
  "f64_gt a b \<longleftrightarrow> f64_lt b a"

definition f64_ge :: "float64 \<Rightarrow> float64 \<Rightarrow> bool" where
  "f64_ge a b \<longleftrightarrow> f64_le b a"

section \<open>document/compare.go\<close>

text \<open>
  \<open>type operator uint8\<close> with the five constants \<open>operatorEq\<close> ... \<open>operatorLte\<close>
  (\<open>iota + 1\<close>). \<open>compare\<close> is unexported and every caller in the file passes one of the
  five constants, so the type is the enumeration of these five.
\<close>

datatype operator = operatorEq | operatorGt | operatorGte | operatorLt | operatorLte

text \<open>\<open>math.MaxInt64\<close>, as the unsigned constant the source compares \<open>ui\<close> with.\<close>

definition MaxInt64 :: uint64 where
  "MaxInt64 = 0x7FFFFFFFFFFFFFFF"

text \<open>The type assertion \<open>x.(uint64)\<close>: the uint64 inside, or a panic.\<close>

fun assert_uint64 :: "native \<Rightarrow> error + uint64" where
  "assert_uint64 (NUint64 u) = Inr u"
| "assert_uint64 _ = Inl TypeAssertionPanic"

text \<open>
  Lines 86 to 117, the block guarded by \<open>l.Type == Uint64Value || r.Type == Uint64Value\<close>.
  It either returns (\<open>Some\<close> of an error or a boolean) or control goes on to
  line 119 (\<open>None\<close>). \<open>ui\<close> starts as 0 and is assigned from the operand whose tag is
  Uint64, the left one first.
\<close>

definition uint64_block :: "decoders \<Rightarrow> operator \<Rightarrow> Value \<Rightarrow> Value \<Rightarrow> (error + bool) option" where
  "uint64_block d op l r =
     (if Type l = Uint64Value \<or> Type r = Uint64Value then
        (case Decode d l of
           Inl err \<Rightarrow> Some (Inl err)
         | Inr lv \<Rightarrow>
            (case Decode d r of
               Inl err \<Rightarrow> Some (Inl err)
             | Inr rv \<Rightarrow>
                (case (if Type l = Uint64Value then assert_uint64 lv
                       else if Type r = Uint64Value then assert_uint64 rv
                       else Inr 0) of
                   Inl p \<Rightarrow> Some (Inl p)
                 | Inr ui \<Rightarrow>
                    (if ui > MaxInt64 then
                       (case op of
                          operatorEq \<Rightarrow> Some (Inr False)
                        | operatorGt \<Rightarrow> Some (Inr (Type l = Uint64Value))
                        | operatorGte \<Rightarrow> Some (Inr (Type l = Uint64Value))
                        | operatorLt \<Rightarrow> Some (Inr (Type r = Uint64Value))
                        | operatorLte \<Rightarrow> Some (Inr (Type r = Uint64Value)))
                     else None))))
      else None)"

text \<open>Lines 119 to 179: the integer rule, the number rule and the final \<open>return false, nil\<close>.\<close>

definition compare_numbers :: "decoders \<Rightarrow> operator \<Rightarrow> Value \<Rightarrow> Value \<Rightarrow> error + bool" where
  "compare_numbers d op l r =
     (if IsInteger (Type l) \<and> IsInteger (Type r) then
        (case DecodeToInt64 d l of
           Inl err \<Rightarrow> Inl err
         | Inr ai \<Rightarrow>
            (case DecodeToInt64 d r of
               Inl err \<Rightarrow> Inl err
             | Inr bi \<Rightarrow>
                Inr (case op of
                       operatorEq \<Rightarrow> ai = bi
                     | operatorGt \<Rightarrow> bi <s ai
                     | operatorGte \<Rightarrow> bi \<le>s ai
                     | operatorLt \<Rightarrow> ai <s bi
                     | operatorLte \<Rightarrow> ai \<le>s bi)))
      else if IsNumber (Type l) \<and> IsNumber (Type r) then
        (case DecodeToFloat64 d l of
           Inl err \<Rightarrow> Inl err
         | Inr af \<Rightarrow>
            (case DecodeToFloat64 d r of
               Inl err \<Rightarrow> Inl err
             | Inr bf \<Rightarrow>
                Inr (case op of
                       operatorEq \<Rightarrow> f64_eq af bf
                     | operatorGt \<Rightarrow> f64_gt af bf
                     | operatorGte \<Rightarrow> f64_ge af bf
                     | operatorLt \<Rightarrow> f64_lt af bf
                     | operatorLte \<Rightarrow> f64_le af bf)))
      else Inr False)"

text \<open>
  \<open>compare\<close>, lines 53 to 180: the nil rule, the raw comparison of \<open>Data\<close> for equal tags
  and for a String with a Bytes, the Uint64 block, then the rest.
\<close>

definition compare :: "decoders \<Rightarrow> operator \<Rightarrow> Value \<Rightarrow> Value \<Rightarrow> error + bool" where
  "compare d op l r =
     (if Type l = NullValue \<or> Type r = NullValue then
        (case op of
           operatorEq \<Rightarrow> Inr (Type l = Type r)
         | operatorGte \<Rightarrow> Inr (Type l = Type r)
         | operatorLte \<Rightarrow> Inr (Type l = Type r)
         | operatorGt \<Rightarrow> Inr False
         | operatorLt \<Rightarrow> Inr False)
      else if Type l = Type r
              \<or> (Type l = StringValue \<and> Type r = BytesValue)
              \<or> (Type r = StringValue \<and> Type l = BytesValue) then
        Inr (case op of
               operatorEq \<Rightarrow> bytes_Equal (Data l) (Data r)
             | operatorGt \<Rightarrow> bytes_Compare (Data l) (Data r) > 0
             | operatorGte \<Rightarrow> bytes_Compare (Data l) (Data r) \<ge> 0
             | operatorLt \<Rightarrow> bytes_Compare (Data l) (Data r) < 0
             | operatorLte \<Rightarrow> bytes_Compare (Data l) (Data r) \<le> 0)
      else
        (case uint64_block d op l r of
           Some res \<Rightarrow> res
         | None \<Rightarrow> compare_numbers d op l r))"

text \<open>The six exported predicates, lines 18 to 51.\<close>

definition IsEqual :: "decoders \<Rightarrow> Value \<Rightarrow> Value \<Rightarrow> error + bool" where
  "IsEqual d v other = compare d operatorEq v other"

definition IsNotEqual :: "decoders \<Rightarrow> Value \<Rightarrow> Value \<Rightarrow> error + bool" where
  "IsNotEqual d v other =
     (case IsEqual d v other of
        Inl err \<Rightarrow> Inl err
      | Inr ok \<Rightarrow> Inr (\<not> ok))"

definition IsGreaterThan :: "decoders \<Rightarrow> Value \<Rightarrow> Value \<Rightarrow> error + bool" where
  "IsGreaterThan d v other = compare d operatorGt v other"

definition IsGreaterThanOrEqual :: "decoders \<Rightarrow> Value \<Rightarrow> Value \<Rightarrow> error + bool" where
  "IsGreaterThanOrEqual d v other = compare d operatorGte v other"

definition IsLesserThan :: "decoders \<Rightarrow> Value \<Rightarrow> Value \<Rightarrow> error + bool" where
  "IsLesserThan d v other = compare d operatorLt v other"

definition IsLesserThanOrEqual :: "decoders \<Rightarrow> Value \<Rightarrow> Value \<Rightarrow> error + bool" where
  "IsLesserThanOrEqual d v other = compare d operatorLte v other"

section \<open>The conditions the dispatch rules are stated under\<close>

text \<open>
  The Uint64 block decides nothing: neither operand is tagged Uint64, or both \<open>Decode\<close>
  calls succeed, the operand tagged Uint64 (the left one first) holds a uint64, and that
  number does not exceed \<open>math.MaxInt64\<close>.
\<close>

definition overflow_undecided :: "decoders \<Rightarrow> Value \<Rightarrow> Value \<Rightarrow> bool" where
  "overflow_undecided d l r \<longleftrightarrow>
     (Type l \<noteq> Uint64Value \<and> Type r \<noteq> Uint64Value) \<or>
     (case Decode d l of
        Inl err \<Rightarrow> False
      | Inr lv \<Rightarrow>
         (case Decode d r of
            Inl err \<Rightarrow> False
          | Inr rv \<Rightarrow>
             (case (if Type l = Uint64Value then lv else rv) of
                NUint64 ui \<Rightarrow> ui \<le> MaxInt64
              | _ \<Rightarrow> False)))"

text \<open>The condition of line 65: equal tags, or a String with a Bytes.\<close>

definition directly_comparable :: "Value \<Rightarrow> Value \<Rightarrow> bool" where
  "directly_comparable l r \<longleftrightarrow>
     Type l = Type r
     \<or> (Type l = StringValue \<and> Type r = BytesValue)
     \<or> (Type r = StringValue \<and> Type l = BytesValue)"

text \<open>Exactly one of the two operands is tagged Null.\<close>

definition one_null :: "Value \<Rightarrow> Value \<Rightarrow> bool" where
  "one_null l r \<longleftrightarrow> (Type l = NullValue) \<noteq> (Type r = NullValue)"

text \<open>
  The pair reaches the last line of \<open>compare\<close>: no operand is Null, the tags are not
  directly comparable, the Uint64 block decides nothing and the operands are not both numbers.
\<close>

definition incomparable_fallback :: "decoders \<Rightarrow> Value \<Rightarrow> Value \<Rightarrow> bool" where
  "incomparable_fallback d l r \<longleftrightarrow>
     Type l \<noteq> NullValue \<and> Type r \<noteq> NullValue \<and> \<not> directly_comparable l r
     \<and> overflow_undecided d l r
     \<and> \<not> (IsNumber (Type l) \<and> IsNumber (Type r))"

text \<open>
  The pair reaches the floating-point comparison of lines 150 to 177 and one of the two
  decoded floats is a NaN.
\<close>

definition nan_comparison :: "decoders \<Rightarrow> Value \<Rightarrow> Value \<Rightarrow> bool" where
  "nan_comparison d l r \<longleftrightarrow>
     Type l \<noteq> NullValue \<and> Type r \<noteq> NullValue \<and> \<not> directly_comparable l r
     \<and> overflow_undecided d l r
     \<and> \<not> (IsInteger (Type l) \<and> IsInteger (Type r))
     \<and> IsNumber (Type l) \<and> IsNumber (Type r)
     \<and> (case DecodeToFloat64 d l of
            Inl err \<Rightarrow> False
          | Inr af \<Rightarrow>
             (case DecodeToFloat64 d r of
                Inl err \<Rightarrow> False
              | Inr bf \<Rightarrow> f64_isNaN af \<or> f64_isNaN bf))"

section \<open>A sample value layer\<close>

text \<open>
  Modelled from the spec: the encoding of values and the decode routines are not in
  compare.go, and the spec fixes only their contract (section 6). To run \<open>compare\<close> on
  concrete Values, here is one value layer that honours it. A Bool or a number is stored in
  as many bytes as its width, big-endian, signed integers in two's complement and a Float64
  as its IEEE-754 bit pattern; a payload of any other length is malformed. A String or a
  Bytes is stored as it is. \<open>DecodeToInt64\<close> sign-extends a signed integer and reads an
  unsigned one as it is, as Go's conversion \<open>int64(x)\<close> does; \<open>DecodeToFloat64\<close>
  converts an integer as Go's \<open>float64(x)\<close> does, to the nearest float, ties to even.
\<close>

definition be_uint :: "byte list \<Rightarrow> 64 word" where
  "be_uint bs = foldl (\<lambda>acc b. acc * 256 + ucast b) 0 bs"

fun sample_width :: "ValueType \<Rightarrow> nat" where
  "sample_width BoolValue = 1"
| "sample_width Int8Value = 1"
| "sample_width Uint8Value = 1"
| "sample_width Int16Value = 2"
| "sample_width Uint16Value = 2"
| "sample_width Int32Value = 4"
| "sample_width Uint32Value = 4"
| "sample_width Int64Value = 8"
| "sample_width Uint64Value = 8"
| "sample_width Float64Value = 8"
| "sample_width _ = 0"

definition sample_fixed :: "Value \<Rightarrow> error + 64 word" where
  "sample_fixed v =
     (if length (Data v) = sample_width (Type v) then Inr (be_uint (Data v))
      else Inl (DecodeError ''malformed payload''))"

fun sample_native :: "ValueType \<Rightarrow> 64 word \<Rightarrow> native" where
  "sample_native BoolValue w = NBool (w \<noteq> 0)"
| "sample_native Int8Value w = NInt8 (ucast w)"
| "sample_native Int16Value w = NInt16 (ucast w)"
| "sample_native Int32Value w = NInt32 (ucast w)"
| "sample_native Int64Value w = NInt64 w"
| "sample_native Uint8Value w = NUint8 (ucast w)"
| "sample_native Uint16Value w = NUint16 (ucast w)"
| "sample_native Uint32Value w = NUint32 (ucast w)"
| "sample_native Uint64Value w = NUint64 w"
| "sample_native Float64Value w = NFloat64 w"
| "sample_native _ w = NNil"

definition sample_Decode :: "Value \<Rightarrow> error + native" where
  "sample_Decode v =
     (if Type v = NullValue then Inr NNil
      else if Type v = StringValue then Inr (NString (Data v))
      else if Type v = BytesValue then Inr (NBytes (Data v))
      else (case sample_fixed v of
              Inl err \<Rightarrow> Inl err
            | Inr w \<Rightarrow> Inr (sample_native (Type v) w)))"

fun sample_signed :: "ValueType \<Rightarrow> bool" where
  "sample_signed Int8Value = True"
| "sample_signed Int16Value = True"
| "sample_signed Int32Value = True"
| "sample_signed Int64Value = True"
| "sample_signed _ = False"

definition sample_DecodeToInt64 :: "Value \<Rightarrow> error + int64" where
  "sample_DecodeToInt64 v =
     (if IsInteger (Type v) then
        (case sample_fixed v of
           Inl err \<Rightarrow> Inl err
         | Inr w \<Rightarrow>
            Inr (if sample_signed (Type v)
                 then signed_take_bit (8 * sample_width (Type v) - 1) w else w))
      else Inl (DecodeError ''not an integer''))"

text \<open>The position of the highest set bit of a number below \<open>2 ^ 64\<close>.\<close>

definition top_bit :: "nat \<Rightarrow> nat" where
  "top_bit n =
     (let k5 = (if 2 ^ 32 \<le> n then 32 else 0);
          k4 = (if 2 ^ (k5 + 16) \<le> n then k5 + 16 else k5);
          k3 = (if 2 ^ (k4 + 8) \<le> n then k4 + 8 else k4);
          k2 = (if 2 ^ (k3 + 4) \<le> n then k3 + 4 else k3);
          k1 = (if 2 ^ (k2 + 2) \<le> n then k2 + 2 else k2)
      in if 2 ^ (k1 + 1) \<le> n then k1 + 1 else k1)"

text \<open>
  The 53-bit significand of \<open>n\<close>, whose highest set bit is bit \<open>k\<close>: shifted up when it
  fits, rounded to nearest (ties to even) when it does not. A significand that rounds up to
  \<open>2 ^ 53\<close> carries into the exponent field in \<open>f64_pack\<close>.
\<close>

definition f64_round :: "nat \<Rightarrow> nat \<Rightarrow> nat" where
  "f64_round k n =
     (if k \<le> 52 then n * 2 ^ (52 - k)
      else if 2 ^ (k - 53) < n mod 2 ^ (k - 52)
              \<or> (n mod 2 ^ (k - 52) = 2 ^ (k - 53) \<and> odd (n div 2 ^ (k - 52)))
           then n div 2 ^ (k - 52) + 1
           else n div 2 ^ (k - 52))"

definition f64_pack :: "bool \<Rightarrow> nat \<Rightarrow> nat \<Rightarrow> float64" where
  "f64_pack neg k n =
     (if neg then push_bit 63 1 else 0)
       + push_bit 52 (of_nat (1023 + k)) + of_nat (f64_round k n - 2 ^ 52)"

definition f64_of_int :: "int \<Rightarrow> float64" where
  "f64_of_int i = (if i = 0 then 0 else f64_pack (i < 0) (top_bit (nat \<bar>i\<bar>)) (nat \<bar>i\<bar>))"

definition sample_DecodeToFloat64 :: "Value \<Rightarrow> error + float64" where
  "sample_DecodeToFloat64 v =
     (if Type v = Float64Value then sample_fixed v
      else (case sample_DecodeToInt64 v of
              Inl err \<Rightarrow> Inl err
            | Inr i \<Rightarrow> Inr (f64_of_int (sint i))))"

definition sample_decoders :: decoders where
  "sample_decoders =
     \<lparr>Decode = sample_Decode, DecodeToInt64 = sample_DecodeToInt64,
      DecodeToFloat64 = sample_DecodeToFloat64\<rparr>"

section \<open>Evaluation and helper lemmas\<close>

lemmas sample_eval =
  sample_decoders_def sample_Decode_def sample_DecodeToInt64_def sample_DecodeToFloat64_def
  sample_fixed_def be_uint_def f64_of_int_def top_bit_def f64_pack_def f64_round_def

lemmas compare_eval =
  IsEqual_def IsNotEqual_def IsGreaterThan_def IsGreaterThanOrEqual_def IsLesserThan_def
  IsLesserThanOrEqual_def compare_def uint64_block_def compare_numbers_def IsNumber_def
  MaxInt64_def bytes_Equal_def

lemmas f64_eval =
  f64_eq_def f64_lt_def f64_le_def f64_gt_def f64_ge_def f64_isNaN_def f64_scaled_def
  f64_magnitude_def f64_exponent_def f64_fraction_def

lemmas predicates =
  IsEqual_def IsGreaterThan_def IsGreaterThanOrEqual_def IsLesserThan_def
  IsLesserThanOrEqual_def

lemmas f64_cmp = f64_eq_def f64_lt_def f64_le_def f64_gt_def f64_ge_def

lemma bytes_Compare_neg: "bytes_Compare xs ys < 0 \<longleftrightarrow> xs < ys"
  by (induction xs ys rule: bytes_Compare.induct) auto

lemma bytes_Compare_pos: "0 < bytes_Compare xs ys \<longleftrightarrow> ys < xs"
  by (induction xs ys rule: bytes_Compare.induct) auto

lemma bytes_Compare_zero: "bytes_Compare xs ys = 0 \<longleftrightarrow> xs = ys"
  by (induction xs ys rule: bytes_Compare.induct) auto

lemma bytes_Compare_nonpos: "bytes_Compare xs ys \<le> 0 \<longleftrightarrow> xs \<le> ys"
  using bytes_Compare_neg [of xs ys] bytes_Compare_zero [of xs ys]
  by (auto simp: order.order_iff_strict)

lemma bytes_Compare_nonneg: "0 \<le> bytes_Compare xs ys \<longleftrightarrow> ys \<le> xs"
  using bytes_Compare_pos [of xs ys] bytes_Compare_zero [of xs ys]
  by (auto simp: order.order_iff_strict)

lemma uint64_block_None: "uint64_block d op l r = None \<longleftrightarrow> overflow_undecided d l r"
  by (cases op)
    (auto simp: uint64_block_def overflow_undecided_def
          split: sum.splits native.splits if_splits)

lemma exceeds_MaxInt64: "MaxInt64 < ui \<longleftrightarrow> 9223372036854775807 < unat ui"
  by (simp add: MaxInt64_def word_less_nat_alt)

lemma sint_eq_iff: "sint (a :: 64 word) = sint b \<longleftrightarrow> a = b"
  by (auto dest: signed_word_eqI)

lemma compare_undecided:
  "Type l \<noteq> NullValue \<Longrightarrow> Type r \<noteq> NullValue \<Longrightarrow> \<not> directly_comparable l r \<Longrightarrow>
   overflow_undecided d l r \<Longrightarrow> compare d op l r = compare_numbers d op l r"
  using uint64_block_None [of d op l r]
  by (auto simp: compare_def directly_comparable_def)

lemma assert_uint64_Inr: "assert_uint64 x = Inr ui \<longleftrightarrow> x = NUint64 ui"
  by (cases x) simp_all

lemma uint64_block_decides:
  assumes "\<not> overflow_undecided d l r"
  shows "(\<exists>e. \<forall>op. uint64_block d op l r = Some (Inl e))
   \<or> (\<forall>op. uint64_block d op l r =
             Some (Inr (case op of
                          operatorEq \<Rightarrow> False
                        | operatorGt \<Rightarrow> Type l = Uint64Value
                        | operatorGte \<Rightarrow> Type l = Uint64Value
                        | operatorLt \<Rightarrow> Type r = Uint64Value
                        | operatorLte \<Rightarrow> Type r = Uint64Value)))"
proof -
  from assms have g: "Type l = Uint64Value \<or> Type r = Uint64Value"
    by (auto simp: overflow_undecided_def)
  show ?thesis
  proof (cases "Decode d l")
    case (Inl e)
    with g have "\<forall>op. uint64_block d op l r = Some (Inl e)"
      by (simp add: uint64_block_def)
    then show ?thesis by blast
  next
    case lv: (Inr lv)
    show ?thesis
    proof (cases "Decode d r")
      case (Inl e)
      with g lv have "\<forall>op. uint64_block d op l r = Some (Inl e)"
        by (simp add: uint64_block_def)
      then show ?thesis by blast
    next
      case rv: (Inr rv)
      define x where "x = (if Type l = Uint64Value then lv else rv)"
      from g have a: "(if Type l = Uint64Value then assert_uint64 lv
                       else if Type r = Uint64Value then assert_uint64 rv
                       else Inr 0) = assert_uint64 x"
        by (auto simp: x_def)
      show ?thesis
      proof (cases "assert_uint64 x")
        case (Inl p)
        with g lv rv a have "\<forall>op. uint64_block d op l r = Some (Inl p)"
          by (simp add: uint64_block_def)
        then show ?thesis by blast
      next
        case (Inr ui)
        then have x: "x = NUint64 ui"
          by (simp add: assert_uint64_Inr)
        with assms g lv rv have big: "MaxInt64 < ui"
          by (auto simp: overflow_undecided_def x_def split: if_splits)
        have "uint64_block d op l r =
             Some (Inr (case op of
                          operatorEq \<Rightarrow> False
                        | operatorGt \<Rightarrow> Type l = Uint64Value
                        | operatorGte \<Rightarrow> Type l = Uint64Value
                        | operatorLt \<Rightarrow> Type r = Uint64Value
                        | operatorLte \<Rightarrow> Type r = Uint64Value))" for op
          using g lv rv a Inr big by (cases op) (simp_all add: uint64_block_def)
        then show ?thesis by blast
      qed
    qed
  qed
qed

lemma f64_exclusive:
  "\<not> (f64_gt a b \<and> f64_lt a b) \<and> \<not> (f64_gt a b \<and> f64_eq a b) \<and> \<not> (f64_lt a b \<and> f64_eq a b)"
  by (auto simp: f64_cmp)

lemma f64_some_holds:
  "f64_gt a b \<or> f64_lt a b \<or> f64_eq a b \<longleftrightarrow> \<not> (f64_isNaN a \<or> f64_isNaN b)"
  by (auto simp: f64_cmp)

lemma f64_ge_iff: "f64_ge a b \<longleftrightarrow> f64_gt a b \<or> f64_eq a b"
  by (auto simp: f64_cmp)

lemma f64_le_iff: "f64_le a b \<longleftrightarrow> f64_lt a b \<or> f64_eq a b"
  by (auto simp: f64_cmp)

lemma sle_iff: "a \<le>s b \<longleftrightarrow> a <s b \<or> a = b" for a b :: "64 word"
  using sint_eq_iff [of a b] by (auto simp: word_sle_eq word_sless_alt)

lemma sless_exclusive:
  "\<not> (b <s a \<and> a <s b) \<and> \<not> (b <s a \<and> a = b) \<and> \<not> (a <s b \<and> a = b)
   \<and> (b <s a \<or> a <s b \<or> a = b)" for a b :: "64 word"
  by (auto simp: word_sless_alt sint_eq_iff [symmetric])

lemma compare_shape:
  "(\<exists>err. \<forall>op. compare d op l r = Inl err)
   \<or> (\<exists>g lt e.
         (\<forall>op. compare d op l r =
            Inr (case op of
                   operatorEq \<Rightarrow> e
                 | operatorGt \<Rightarrow> g
                 | operatorGte \<Rightarrow> g \<or> e
                 | operatorLt \<Rightarrow> lt
                 | operatorLte \<Rightarrow> lt \<or> e))
       \<and> \<not> (g \<and> lt) \<and> \<not> (g \<and> e) \<and> \<not> (lt \<and> e)
       \<and> (g \<or> lt \<or> e \<longleftrightarrow>
            \<not> (one_null l r \<or> nan_comparison d l r \<or> incomparable_fallback d l r)))"
  (is "?failed \<or> (\<exists>g lt e. ?shape g lt e \<and> ?rest g lt e)")
proof -
  have failedI: "?thesis" if "\<And>op. compare d op l r = Inl err" for err
    using that by blast
  have decidedI: "?thesis" if "\<And>op. compare d op l r =
            Inr (case op of
                   operatorEq \<Rightarrow> e
                 | operatorGt \<Rightarrow> g
                 | operatorGte \<Rightarrow> g \<or> e
                 | operatorLt \<Rightarrow> lt
                 | operatorLte \<Rightarrow> lt \<or> e)" and "?rest g lt e" for g lt e
    using that by blast
  consider
      (null) "Type l = NullValue \<or> Type r = NullValue"
    | (raw) "Type l \<noteq> NullValue" "Type r \<noteq> NullValue" "directly_comparable l r"
    | (block) "Type l \<noteq> NullValue" "Type r \<noteq> NullValue" "\<not> directly_comparable l r"
        "\<not> overflow_undecided d l r"
    | (numbers) "Type l \<noteq> NullValue" "Type r \<noteq> NullValue" "\<not> directly_comparable l r"
        "overflow_undecided d l r"
    by blast
  then show ?thesis
  proof cases
    case null
    have "compare d op l r =
            Inr (case op of
                   operatorEq \<Rightarrow> Type l = Type r
                 | operatorGt \<Rightarrow> False
                 | operatorGte \<Rightarrow> False \<or> Type l = Type r
                 | operatorLt \<Rightarrow> False
                 | operatorLte \<Rightarrow> False \<or> Type l = Type r)" for op
      using null by (cases op) (simp_all add: compare_def)
    moreover from null have "?rest False False (Type l = Type r)"
      by (auto simp: one_null_def nan_comparison_def incomparable_fallback_def)
    ultimately show ?thesis by (rule decidedI)
  next
    case raw
    have "compare d op l r =
            Inr (case op of
                   operatorEq \<Rightarrow> Data l = Data r
                 | operatorGt \<Rightarrow> Data r < Data l
                 | operatorGte \<Rightarrow> Data r < Data l \<or> Data l = Data r
                 | operatorLt \<Rightarrow> Data l < Data r
                 | operatorLte \<Rightarrow> Data l < Data r \<or> Data l = Data r)" for op
      using raw
      by (cases op)
        (auto simp: compare_def directly_comparable_def bytes_Equal_def bytes_Compare_neg
           bytes_Compare_pos bytes_Compare_nonneg bytes_Compare_nonpos)
    moreover from raw have "?rest (Data r < Data l) (Data l < Data r) (Data l = Data r)"
      by (auto simp: one_null_def nan_comparison_def incomparable_fallback_def)
    ultimately show ?thesis by (rule decidedI)
  next
    case block
    from block have c: "compare d op l r = (case uint64_block d op l r of
           Some res \<Rightarrow> res | None \<Rightarrow> compare_numbers d op l r)" for op
      by (auto simp: compare_def directly_comparable_def)
    from block have tags: "Type l \<noteq> Type r" "Type l = Uint64Value \<or> Type r = Uint64Value"
      by (auto simp: directly_comparable_def overflow_undecided_def)
    from uint64_block_decides [OF block(4)] show ?thesis
    proof (elim disjE exE)
      fix err assume "\<forall>op. uint64_block d op l r = Some (Inl err)"
      then have "compare d op l r = Inl err" for op
        by (simp add: c)
      then show ?thesis by (rule failedI)
    next
      assume b: "\<forall>op. uint64_block d op l r =
             Some (Inr (case op of
                          operatorEq \<Rightarrow> False
                        | operatorGt \<Rightarrow> Type l = Uint64Value
                        | operatorGte \<Rightarrow> Type l = Uint64Value
                        | operatorLt \<Rightarrow> Type r = Uint64Value
                        | operatorLte \<Rightarrow> Type r = Uint64Value))"
      have "compare d op l r =
            Inr (case op of
                   operatorEq \<Rightarrow> False
                 | operatorGt \<Rightarrow> Type l = Uint64Value
                 | operatorGte \<Rightarrow> Type l = Uint64Value \<or> False
                 | operatorLt \<Rightarrow> Type r = Uint64Value
                 | operatorLte \<Rightarrow> Type r = Uint64Value \<or> False)" for op
        using b by (cases op) (simp_all add: c)
      moreover from block tags
      have "?rest (Type l = Uint64Value) (Type r = Uint64Value) False"
        by (auto simp: one_null_def nan_comparison_def incomparable_fallback_def)
      ultimately show ?thesis by (rule decidedI)
    qed
  next
    case numbers
    then have c: "compare d op l r = compare_numbers d op l r" for op
      by (simp add: compare_undecided)
    consider
        (ints) "IsInteger (Type l) \<and> IsInteger (Type r)"
      | (floats) "\<not> (IsInteger (Type l) \<and> IsInteger (Type r))"
          "IsNumber (Type l) \<and> IsNumber (Type r)"
      | (fallback) "\<not> (IsNumber (Type l) \<and> IsNumber (Type r))"
      by (auto simp: IsNumber_def)
    then show ?thesis
    proof cases
      case ints
      show ?thesis
      proof (cases "DecodeToInt64 d l")
        case (Inl err)
        with ints have "compare d op l r = Inl err" for op
          by (simp add: c compare_numbers_def)
        then show ?thesis by (rule failedI)
      next
        case ai: (Inr ai)
        show ?thesis
        proof (cases "DecodeToInt64 d r")
          case (Inl err)
          with ints ai have "compare d op l r = Inl err" for op
            by (simp add: c compare_numbers_def)
          then show ?thesis by (rule failedI)
        next
          case bi: (Inr bi)
          have "compare d op l r =
            Inr (case op of
                   operatorEq \<Rightarrow> ai = bi
                 | operatorGt \<Rightarrow> bi <s ai
                 | operatorGte \<Rightarrow> bi <s ai \<or> ai = bi
                 | operatorLt \<Rightarrow> ai <s bi
                 | operatorLte \<Rightarrow> ai <s bi \<or> ai = bi)" for op
            using ints ai bi
            by (cases op) (auto simp: c compare_numbers_def sle_iff)
          moreover from numbers ints have "?rest (bi <s ai) (ai <s bi) (ai = bi)"
            using sless_exclusive [of bi ai]
            by (auto simp: one_null_def nan_comparison_def incomparable_fallback_def
                  IsNumber_def)
          ultimately show ?thesis by (rule decidedI)
        qed
      qed
    next
      case floats
      show ?thesis
      proof (cases "DecodeToFloat64 d l")
        case (Inl err)
        with floats have "compare d op l r = Inl err" for op
          by (auto simp: c compare_numbers_def)
        then show ?thesis by (rule failedI)
      next
        case af: (Inr af)
        show ?thesis
        proof (cases "DecodeToFloat64 d r")
          case (Inl err)
          with floats af have "compare d op l r = Inl err" for op
            by (auto simp: c compare_numbers_def)
          then show ?thesis by (rule failedI)
        next
          case bf: (Inr bf)
          have "compare d op l r =
            Inr (case op of
                   operatorEq \<Rightarrow> f64_eq af bf
                 | operatorGt \<Rightarrow> f64_gt af bf
                 | operatorGte \<Rightarrow> f64_gt af bf \<or> f64_eq af bf
                 | operatorLt \<Rightarrow> f64_lt af bf
                 | operatorLte \<Rightarrow> f64_lt af bf \<or> f64_eq af bf)" for op
            using floats af bf
            by (cases op) (auto simp: c compare_numbers_def f64_ge_iff f64_le_iff)
          moreover have "nan_comparison d l r \<longleftrightarrow> f64_isNaN af \<or> f64_isNaN bf"
            using numbers floats af bf by (auto simp: nan_comparison_def)
          with numbers floats
          have "?rest (f64_gt af bf) (f64_lt af bf) (f64_eq af bf)"
            using f64_exclusive [of af bf] f64_some_holds [of af bf]
            by (auto simp: one_null_def incomparable_fallback_def)
          ultimately show ?thesis by (rule decidedI)
        qed
      qed
    next
      case fallback
      then have "compare d op l r =
            Inr (case op of
                   operatorEq \<Rightarrow> False
                 | operatorGt \<Rightarrow> False
                 | operatorGte \<Rightarrow> False \<or> False
                 | operatorLt \<Rightarrow> False
                 | operatorLte \<Rightarrow> False \<or> False)" for op
        by (cases op) (auto simp: c compare_numbers_def IsNumber_def)
      moreover from numbers fallback have "?rest False False False"
        by (auto simp: incomparable_fallback_def)
      ultimately show ?thesis by (rule decidedI)
    qed
  qed
qed

section \<open>The Uint64 overflow rule\<close>

text \<open>
  Claim C1. Let \<open>l\<close> and \<open>r\<close> have distinct tags, neither Null and not a String with a
  Bytes, let one of them be tagged Uint64, and let both \<open>Decode\<close> calls succeed, the operand
  tagged Uint64 holding the number \<open>ui\<close>. If \<open>ui\<close> exceeds the largest int64, then IsEqual
  is false, IsGreaterThan and IsGreaterThanOrEqual are true exactly when the Uint64 operand is
  the left one, and IsLesserThan and IsLesserThanOrEqual exactly when it is the right one. If
  \<open>ui\<close> does not exceed it, the block returns nothing and \<open>compare\<close> goes on with the
  integer rule, the first test of \<open>compare_numbers\<close>.
\<close>

theorem uint64_overflow_rule:
  "Type l \<noteq> Type r \<Longrightarrow> Type l \<noteq> NullValue \<Longrightarrow> Type r \<noteq> NullValue \<Longrightarrow>
   \<not> (Type l = StringValue \<and> Type r = BytesValue) \<Longrightarrow>
   \<not> (Type l = BytesValue \<and> Type r = StringValue) \<Longrightarrow>
   Type l = Uint64Value \<or> Type r = Uint64Value \<Longrightarrow>
   Decode d l = Inr lv \<Longrightarrow> Decode d r = Inr rv \<Longrightarrow>
   (if Type l = Uint64Value then lv else rv) = NUint64 ui \<Longrightarrow>
     (9223372036854775807 < unat ui \<longrightarrow>
          IsEqual d l r = Inr False
        \<and> IsGreaterThan d l r = Inr (Type l = Uint64Value)
        \<and> IsGreaterThanOrEqual d l r = Inr (Type l = Uint64Value)
        \<and> IsLesserThan d l r = Inr (Type r = Uint64Value)
        \<and> IsLesserThanOrEqual d l r = Inr (Type r = Uint64Value))
   \<and> (unat ui \<le> 9223372036854775807 \<longrightarrow>
          (\<forall>op. uint64_block d op l r = None
                \<and> compare d op l r = compare_numbers d op l r))"
  by (auto simp: predicates compare_def uint64_block_def exceeds_MaxInt64)

text \<open>
  The rule at Uint64(18446744073709551615) against Int64(9223372036854775807), at Int64(-1)
  against Uint64(18446744073709551615), and, for a number within the signed range, at
  Uint64(1) against Int64(9223372036854775807).
\<close>

theorem uint64_overflow_rule_witness:
  "Decode sample_decoders
        \<lparr>Type = Uint64Value, Data = [255, 255, 255, 255, 255, 255, 255, 255]\<rparr>
          = Inr (NUint64 18446744073709551615)
   \<and> Decode sample_decoders
         \<lparr>Type = Int64Value, Data = [127, 255, 255, 255, 255, 255, 255, 255]\<rparr>
           = Inr (NInt64 9223372036854775807)
   \<and> IsGreaterThan sample_decoders
         \<lparr>Type = Uint64Value, Data = [255, 255, 255, 255, 255, 255, 255, 255]\<rparr>
         \<lparr>Type = Int64Value, Data = [127, 255, 255, 255, 255, 255, 255, 255]\<rparr>
           = Inr True
   \<and> IsEqual sample_decoders
         \<lparr>Type = Uint64Value, Data = [255, 255, 255, 255, 255, 255, 255, 255]\<rparr>
         \<lparr>Type = Int64Value, Data = [127, 255, 255, 255, 255, 255, 255, 255]\<rparr>
           = Inr False
   \<and> Decode sample_decoders
         \<lparr>Type = Int64Value, Data = [255, 255, 255, 255, 255, 255, 255, 255]\<rparr>
           = Inr (NInt64 (- 1))
   \<and> IsLesserThan sample_decoders
         \<lparr>Type = Int64Value, Data = [255, 255, 255, 255, 255, 255, 255, 255]\<rparr>
         \<lparr>Type = Uint64Value, Data = [255, 255, 255, 255, 255, 255, 255, 255]\<rparr>
           = Inr True
   \<and> IsGreaterThan sample_decoders
         \<lparr>Type = Int64Value, Data = [255, 255, 255, 255, 255, 255, 255, 255]\<rparr>
         \<lparr>Type = Uint64Value, Data = [255, 255, 255, 255, 255, 255, 255, 255]\<rparr>
           = Inr False
   \<and> Decode sample_decoders
         \<lparr>Type = Uint64Value, Data = [0, 0, 0, 0, 0, 0, 0, 1]\<rparr> = Inr (NUint64 1)
   \<and> (\<forall>op. compare sample_decoders op
         \<lparr>Type = Uint64Value, Data = [0, 0, 0, 0, 0, 0, 0, 1]\<rparr>
         \<lparr>Type = Int64Value, Data = [127, 255, 255, 255, 255, 255, 255, 255]\<rparr>
           = compare_numbers sample_decoders op
         \<lparr>Type = Uint64Value, Data = [0, 0, 0, 0, 0, 0, 0, 1]\<rparr>
         \<lparr>Type = Int64Value, Data = [127, 255, 255, 255, 255, 255, 255, 255]\<rparr>)"
proof -
  have d1: "Decode sample_decoders
        \<lparr>Type = Uint64Value, Data = [255, 255, 255, 255, 255, 255, 255, 255]\<rparr>
          = Inr (NUint64 18446744073709551615)"
    by (simp add: sample_eval)
  have d2: "Decode sample_decoders
        \<lparr>Type = Int64Value, Data = [127, 255, 255, 255, 255, 255, 255, 255]\<rparr>
          = Inr (NInt64 9223372036854775807)"
    by (simp add: sample_eval)
  have d3: "Decode sample_decoders
        \<lparr>Type = Int64Value, Data = [255, 255, 255, 255, 255, 255, 255, 255]\<rparr>
          = Inr (NInt64 (- 1))"
    by (simp add: sample_eval)
  have d4: "Decode sample_decoders
        \<lparr>Type = Uint64Value, Data = [0, 0, 0, 0, 0, 0, 0, 1]\<rparr> = Inr (NUint64 1)"
    by (simp add: sample_eval)
  from d1 d2 d3 d4
    uint64_overflow_rule [of
      "\<lparr>Type = Uint64Value, Data = [255, 255, 255, 255, 255, 255, 255, 255]\<rparr>"
      "\<lparr>Type = Int64Value, Data = [127, 255, 255, 255, 255, 255, 255, 255]\<rparr>" sample_decoders
      "NUint64 18446744073709551615" "NInt64 9223372036854775807" 18446744073709551615]
    uint64_overflow_rule [of
      "\<lparr>Type = Int64Value, Data = [255, 255, 255, 255, 255, 255, 255, 255]\<rparr>"
      "\<lparr>Type = Uint64Value, Data = [255, 255, 255, 255, 255, 255, 255, 255]\<rparr>" sample_decoders
      "NInt64 (- 1)" "NUint64 18446744073709551615" 18446744073709551615]
    uint64_overflow_rule [of
      "\<lparr>Type = Uint64Value, Data = [0, 0, 0, 0, 0, 0, 0, 1]\<rparr>"
      "\<lparr>Type = Int64Value, Data = [127, 255, 255, 255, 255, 255, 255, 255]\<rparr>" sample_decoders
      "NUint64 1" "NInt64 9223372036854775807" 1]
  show ?thesis by simp
qed

section \<open>The nil rule\<close>

text \<open>
  Claim C2. When at least one operand is tagged Null, IsEqual, IsGreaterThanOrEqual and
  IsLesserThanOrEqual are true exactly when both are Null, and IsGreaterThan and IsLesserThan
  are false. No decode routine is consulted: the result is a boolean, never an error, for
  every value layer \<open>d\<close> and every \<open>Data\<close>, also where decoding would fail.
\<close>

theorem null_rule:
  "Type l = NullValue \<or> Type r = NullValue \<Longrightarrow>
     IsEqual d l r = Inr (Type l = NullValue \<and> Type r = NullValue)
   \<and> IsGreaterThanOrEqual d l r = Inr (Type l = NullValue \<and> Type r = NullValue)
   \<and> IsLesserThanOrEqual d l r = Inr (Type l = NullValue \<and> Type r = NullValue)
   \<and> IsGreaterThan d l r = Inr False
   \<and> IsLesserThan d l r = Inr False"
  by (auto simp: predicates compare_def)

text \<open>
  The rule at Null against an Int64 whose payload is malformed, and at Null against Null.
\<close>

theorem null_rule_witness:
  "(Type \<lparr>Type = NullValue, Data = []\<rparr> = NullValue
      \<or> Type \<lparr>Type = Int64Value, Data = [1]\<rparr> = NullValue)
   \<and> Decode sample_decoders \<lparr>Type = Int64Value, Data = [1]\<rparr>
        = Inl (DecodeError ''malformed payload'')
   \<and> IsEqual sample_decoders \<lparr>Type = NullValue, Data = []\<rparr>
        \<lparr>Type = Int64Value, Data = [1]\<rparr> = Inr False
   \<and> IsGreaterThanOrEqual sample_decoders \<lparr>Type = NullValue, Data = []\<rparr>
        \<lparr>Type = Int64Value, Data = [1]\<rparr> = Inr False
   \<and> IsLesserThan sample_decoders \<lparr>Type = NullValue, Data = []\<rparr>
        \<lparr>Type = Int64Value, Data = [1]\<rparr> = Inr False
   \<and> IsEqual sample_decoders \<lparr>Type = NullValue, Data = []\<rparr>
        \<lparr>Type = NullValue, Data = []\<rparr> = Inr True
   \<and> IsGreaterThan sample_decoders \<lparr>Type = NullValue, Data = []\<rparr>
        \<lparr>Type = NullValue, Data = []\<rparr> = Inr False"
proof -
  have h: "Type \<lparr>Type = NullValue, Data = []\<rparr> = NullValue
             \<or> Type \<lparr>Type = Int64Value, Data = [1]\<rparr> = NullValue"
    by simp
  have h': "Type \<lparr>Type = NullValue, Data = []\<rparr> = NullValue
             \<or> Type \<lparr>Type = NullValue, Data = []\<rparr> = NullValue"
    by simp
  have m: "Decode sample_decoders \<lparr>Type = Int64Value, Data = [1]\<rparr>
             = Inl (DecodeError ''malformed payload'')"
    by (simp add: sample_eval)
  from null_rule [OF h, of sample_decoders] null_rule [OF h', of sample_decoders] h m
  show ?thesis by simp
qed

section \<open>The raw comparison of directly comparable tags\<close>

text \<open>
  Claim C3. For two operands that are not Null and have equal tags, or of which one is a
  String and the other a Bytes, every predicate is decided by the two \<open>Data\<close> byte sequences
  alone, with no decode and no error: IsEqual is their equality, and the four order predicates
  are the lexicographic order of byte lists (the order on lists of HOL-Library.List_Lexorder,
  over the unsigned order of bytes).
\<close>

theorem raw_bytes_rule:
  "Type l \<noteq> NullValue \<Longrightarrow> Type r \<noteq> NullValue \<Longrightarrow>
   Type l = Type r \<or> (Type l = StringValue \<and> Type r = BytesValue)
     \<or> (Type l = BytesValue \<and> Type r = StringValue) \<Longrightarrow>
     IsEqual d l r = Inr (Data l = Data r)
   \<and> IsGreaterThan d l r = Inr (Data r < Data l)
   \<and> IsGreaterThanOrEqual d l r = Inr (Data r \<le> Data l)
   \<and> IsLesserThan d l r = Inr (Data l < Data r)
   \<and> IsLesserThanOrEqual d l r = Inr (Data l \<le> Data r)"
  by (auto simp: predicates compare_def bytes_Equal_def bytes_Compare_neg bytes_Compare_pos
        bytes_Compare_nonneg bytes_Compare_nonpos)

text \<open>
  The rule at String "x" against Bytes "x", at a String against a longer Bytes, and at two
  Uint8 values, of which one has a malformed payload.
\<close>

theorem raw_bytes_rule_witness:
  "IsEqual sample_decoders \<lparr>Type = StringValue, Data = [0x78]\<rparr>
      \<lparr>Type = BytesValue, Data = [0x78]\<rparr> = Inr True
   \<and> IsLesserThan sample_decoders \<lparr>Type = StringValue, Data = [0x78]\<rparr>
      \<lparr>Type = BytesValue, Data = [0x78, 0x79]\<rparr> = Inr True
   \<and> IsGreaterThan sample_decoders \<lparr>Type = BytesValue, Data = [0x79]\<rparr>
      \<lparr>Type = StringValue, Data = [0x78, 0x79]\<rparr> = Inr True
   \<and> IsLesserThanOrEqual sample_decoders \<lparr>Type = Uint8Value, Data = [0x79, 1]\<rparr>
      \<lparr>Type = Uint8Value, Data = [0x78]\<rparr> = Inr False"
  using
    raw_bytes_rule [of "\<lparr>Type = StringValue, Data = [0x78]\<rparr>"
      "\<lparr>Type = BytesValue, Data = [0x78]\<rparr>" sample_decoders]
    raw_bytes_rule [of "\<lparr>Type = StringValue, Data = [0x78]\<rparr>"
      "\<lparr>Type = BytesValue, Data = [0x78, 0x79]\<rparr>" sample_decoders]
    raw_bytes_rule [of "\<lparr>Type = BytesValue, Data = [0x79]\<rparr>"
      "\<lparr>Type = StringValue, Data = [0x78, 0x79]\<rparr>" sample_decoders]
    raw_bytes_rule [of "\<lparr>Type = Uint8Value, Data = [0x79, 1]\<rparr>"
      "\<lparr>Type = Uint8Value, Data = [0x78]\<rparr>" sample_decoders]
  by simp

section \<open>The number rule\<close>

text \<open>
  Claim C4. Let \<open>l\<close> and \<open>r\<close> be not Null, with distinct tags that both satisfy IsNumber
  (so they are not a String with a Bytes), at least one of them Float64, and let the Uint64
  block decide nothing. Then both are decoded with \<open>DecodeToFloat64\<close>, the left one first; the
  first failure is returned as it is; otherwise each predicate is the IEEE-754 comparison of
  the two floats, and all five are false when one of the floats is a NaN.
\<close>

theorem number_rule:
  "Type l \<noteq> NullValue \<Longrightarrow> Type r \<noteq> NullValue \<Longrightarrow> Type l \<noteq> Type r \<Longrightarrow>
   IsNumber (Type l) \<Longrightarrow> IsNumber (Type r) \<Longrightarrow>
   Type l = Float64Value \<or> Type r = Float64Value \<Longrightarrow> overflow_undecided d l r \<Longrightarrow>
     (\<forall>e. DecodeToFloat64 d l = Inl e \<longrightarrow> (\<forall>op. compare d op l r = Inl e))
   \<and> (\<forall>af e. DecodeToFloat64 d l = Inr af \<and> DecodeToFloat64 d r = Inl e \<longrightarrow>
         (\<forall>op. compare d op l r = Inl e))
   \<and> (\<forall>af bf. DecodeToFloat64 d l = Inr af \<and> DecodeToFloat64 d r = Inr bf \<longrightarrow>
           IsEqual d l r = Inr (f64_eq af bf)
         \<and> IsGreaterThan d l r = Inr (f64_gt af bf)
         \<and> IsGreaterThanOrEqual d l r = Inr (f64_ge af bf)
         \<and> IsLesserThan d l r = Inr (f64_lt af bf)
         \<and> IsLesserThanOrEqual d l r = Inr (f64_le af bf)
         \<and> (f64_isNaN af \<or> f64_isNaN bf \<longrightarrow>
               IsEqual d l r = Inr False
             \<and> IsGreaterThan d l r = Inr False
             \<and> IsGreaterThanOrEqual d l r = Inr False
             \<and> IsLesserThan d l r = Inr False
             \<and> IsLesserThanOrEqual d l r = Inr False))"
proof -
  assume t: "Type l \<noteq> NullValue" "Type r \<noteq> NullValue" "Type l \<noteq> Type r"
    and n: "IsNumber (Type l)" "IsNumber (Type r)"
    and f: "Type l = Float64Value \<or> Type r = Float64Value"
    and u: "overflow_undecided d l r"
  from t n have "\<not> directly_comparable l r"
    by (auto simp: directly_comparable_def IsNumber_def)
  with t u have c: "compare d op l r = compare_numbers d op l r" for op
    by (simp add: compare_undecided)
  from f have i: "\<not> (IsInteger (Type l) \<and> IsInteger (Type r))"
    by auto
  have nan: "\<not> f64_eq af bf \<and> \<not> f64_gt af bf \<and> \<not> f64_ge af bf \<and> \<not> f64_lt af bf
      \<and> \<not> f64_le af bf" if "f64_isNaN af \<or> f64_isNaN bf" for af bf
    using that by (auto simp: f64_cmp)
  from n i nan show ?thesis
    by (auto simp: predicates c compare_numbers_def)
qed

text \<open>
  The rule at Int32(5) against Float64(5.0), at Float64(1.5) against Int8(1), at Uint64(1)
  against Float64(1.5), at a NaN against Int8(1), and at a Float64 whose payload is malformed.
\<close>

theorem number_rule_witness:
  "DecodeToFloat64 sample_decoders
        \<lparr>Type = Int32Value, Data = [0, 0, 0, 5]\<rparr> = Inr 0x4014000000000000
   \<and> DecodeToFloat64 sample_decoders
         \<lparr>Type = Float64Value, Data = [0x40, 0x14, 0, 0, 0, 0, 0, 0]\<rparr>
           = Inr 0x4014000000000000
   \<and> IsEqual sample_decoders
         \<lparr>Type = Int32Value, Data = [0, 0, 0, 5]\<rparr>
         \<lparr>Type = Float64Value, Data = [0x40, 0x14, 0, 0, 0, 0, 0, 0]\<rparr> = Inr True
   \<and> DecodeToFloat64 sample_decoders
         \<lparr>Type = Float64Value, Data = [0x3F, 0xF8, 0, 0, 0, 0, 0, 0]\<rparr>
           = Inr 0x3FF8000000000000
   \<and> DecodeToFloat64 sample_decoders
         \<lparr>Type = Int8Value, Data = [1]\<rparr> = Inr 0x3FF0000000000000
   \<and> IsGreaterThan sample_decoders
         \<lparr>Type = Float64Value, Data = [0x3F, 0xF8, 0, 0, 0, 0, 0, 0]\<rparr>
         \<lparr>Type = Int8Value, Data = [1]\<rparr> = Inr True
   \<and> IsLesserThan sample_decoders
         \<lparr>Type = Uint64Value, Data = [0, 0, 0, 0, 0, 0, 0, 1]\<rparr>
         \<lparr>Type = Float64Value, Data = [0x3F, 0xF8, 0, 0, 0, 0, 0, 0]\<rparr> = Inr True
   \<and> DecodeToFloat64 sample_decoders
         \<lparr>Type = Float64Value, Data = [0x7F, 0xF8, 0, 0, 0, 0, 0, 0]\<rparr>
           = Inr 0x7FF8000000000000
   \<and> f64_isNaN 0x7FF8000000000000
   \<and> IsEqual sample_decoders
         \<lparr>Type = Float64Value, Data = [0x7F, 0xF8, 0, 0, 0, 0, 0, 0]\<rparr>
         \<lparr>Type = Int8Value, Data = [1]\<rparr> = Inr False
   \<and> IsGreaterThan sample_decoders
         \<lparr>Type = Float64Value, Data = [0x7F, 0xF8, 0, 0, 0, 0, 0, 0]\<rparr>
         \<lparr>Type = Int8Value, Data = [1]\<rparr> = Inr False
   \<and> IsGreaterThanOrEqual sample_decoders
         \<lparr>Type = Float64Value, Data = [0x7F, 0xF8, 0, 0, 0, 0, 0, 0]\<rparr>
         \<lparr>Type = Int8Value, Data = [1]\<rparr> = Inr False
   \<and> IsLesserThan sample_decoders
         \<lparr>Type = Float64Value, Data = [0x7F, 0xF8, 0, 0, 0, 0, 0, 0]\<rparr>
         \<lparr>Type = Int8Value, Data = [1]\<rparr> = Inr False
   \<and> IsLesserThanOrEqual sample_decoders
         \<lparr>Type = Float64Value, Data = [0x7F, 0xF8, 0, 0, 0, 0, 0, 0]\<rparr>
         \<lparr>Type = Int8Value, Data = [1]\<rparr> = Inr False
   \<and> DecodeToFloat64 sample_decoders
         \<lparr>Type = Float64Value, Data = [0x3F, 0xF8]\<rparr>
           = Inl (DecodeError ''malformed payload'')
   \<and> IsEqual sample_decoders
         \<lparr>Type = Int8Value, Data = [1]\<rparr>
         \<lparr>Type = Float64Value, Data = [0x3F, 0xF8]\<rparr>
           = Inl (DecodeError ''malformed payload'')"
proof -
  have d1: "DecodeToFloat64 sample_decoders
        \<lparr>Type = Int32Value, Data = [0, 0, 0, 5]\<rparr> = Inr 0x4014000000000000"
    by (simp add: sample_eval)
  have d2: "DecodeToFloat64 sample_decoders
        \<lparr>Type = Float64Value, Data = [0x40, 0x14, 0, 0, 0, 0, 0, 0]\<rparr>
          = Inr 0x4014000000000000"
    by (simp add: sample_eval)
  have d3: "DecodeToFloat64 sample_decoders
        \<lparr>Type = Float64Value, Data = [0x3F, 0xF8, 0, 0, 0, 0, 0, 0]\<rparr>
          = Inr 0x3FF8000000000000"
    by (simp add: sample_eval)
  have d4: "DecodeToFloat64 sample_decoders
        \<lparr>Type = Int8Value, Data = [1]\<rparr> = Inr 0x3FF0000000000000"
    by (simp add: sample_eval)
  have d5: "DecodeToFloat64 sample_decoders
        \<lparr>Type = Float64Value, Data = [0x7F, 0xF8, 0, 0, 0, 0, 0, 0]\<rparr>
          = Inr 0x7FF8000000000000"
    by (simp add: sample_eval)
  have d6: "DecodeToFloat64 sample_decoders
        \<lparr>Type = Float64Value, Data = [0x3F, 0xF8]\<rparr>
          = Inl (DecodeError ''malformed payload'')"
    by (simp add: sample_eval)
  have d7: "DecodeToFloat64 sample_decoders
        \<lparr>Type = Uint64Value, Data = [0, 0, 0, 0, 0, 0, 0, 1]\<rparr>
          = Inr 0x3FF0000000000000"
    by (simp add: sample_eval)
  have e1: "f64_eq 0x4014000000000000 0x4014000000000000"
    by (simp add: f64_eval)
  have e2: "f64_gt 0x3FF8000000000000 0x3FF0000000000000"
    by (simp add: f64_eval)
  have e3: "f64_lt 0x3FF0000000000000 0x3FF8000000000000"
    by (simp add: f64_eval)
  have e4: "f64_isNaN 0x7FF8000000000000"
    by (simp add: f64_eval)
  have e5: "\<not> f64_eq 0x7FF8000000000000 0x3FF0000000000000
      \<and> \<not> f64_gt 0x7FF8000000000000 0x3FF0000000000000
      \<and> \<not> f64_ge 0x7FF8000000000000 0x3FF0000000000000
      \<and> \<not> f64_lt 0x7FF8000000000000 0x3FF0000000000000
      \<and> \<not> f64_le 0x7FF8000000000000 0x3FF0000000000000"
    using e4 by (simp add: f64_cmp)
  have u1: "overflow_undecided sample_decoders
        \<lparr>Type = Int32Value, Data = [0, 0, 0, 5]\<rparr>
        \<lparr>Type = Float64Value, Data = [0x40, 0x14, 0, 0, 0, 0, 0, 0]\<rparr>"
    by (simp add: overflow_undecided_def)
  have u2: "overflow_undecided sample_decoders
        \<lparr>Type = Float64Value, Data = [0x3F, 0xF8, 0, 0, 0, 0, 0, 0]\<rparr>
        \<lparr>Type = Int8Value, Data = [1]\<rparr>"
    by (simp add: overflow_undecided_def)
  have u3: "overflow_undecided sample_decoders
        \<lparr>Type = Uint64Value, Data = [0, 0, 0, 0, 0, 0, 0, 1]\<rparr>
        \<lparr>Type = Float64Value, Data = [0x3F, 0xF8, 0, 0, 0, 0, 0, 0]\<rparr>"
    by (simp add: overflow_undecided_def sample_eval MaxInt64_def)
  have u4: "overflow_undecided sample_decoders
        \<lparr>Type = Float64Value, Data = [0x7F, 0xF8, 0, 0, 0, 0, 0, 0]\<rparr>
        \<lparr>Type = Int8Value, Data = [1]\<rparr>"
    by (simp add: overflow_undecided_def)
  have u5: "overflow_undecided sample_decoders
        \<lparr>Type = Int8Value, Data = [1]\<rparr>
        \<lparr>Type = Float64Value, Data = [0x3F, 0xF8]\<rparr>"
    by (simp add: overflow_undecided_def)
  from d1 d2 d3 d4 d5 d6 d7 e1 e2 e3 e4 e5
    number_rule [OF _ _ _ _ _ _ u1] number_rule [OF _ _ _ _ _ _ u2]
    number_rule [OF _ _ _ _ _ _ u3] number_rule [OF _ _ _ _ _ _ u4]
    number_rule [OF _ _ _ _ _ _ u5]
  show ?thesis by (simp add: IsNumber_def predicates)
qed

section \<open>The integer rule\<close>

text \<open>
  Claim C5. Let \<open>l\<close> and \<open>r\<close> be not Null, with distinct tags that both satisfy
  IsInteger, and let the Uint64 block decide nothing. Then both are decoded with
  \<open>DecodeToInt64\<close>, the left one first; the first failure is returned as it is; otherwise each
  predicate is the comparison of the two numbers read as signed 64-bit integers.
\<close>

theorem integer_rule:
  "Type l \<noteq> Type r \<Longrightarrow> Type l \<noteq> NullValue \<Longrightarrow> Type r \<noteq> NullValue \<Longrightarrow>
   IsInteger (Type l) \<Longrightarrow> IsInteger (Type r) \<Longrightarrow> overflow_undecided d l r \<Longrightarrow>
     (\<forall>e. DecodeToInt64 d l = Inl e \<longrightarrow> (\<forall>op. compare d op l r = Inl e))
   \<and> (\<forall>ai e. DecodeToInt64 d l = Inr ai \<and> DecodeToInt64 d r = Inl e \<longrightarrow>
         (\<forall>op. compare d op l r = Inl e))
   \<and> (\<forall>ai bi. DecodeToInt64 d l = Inr ai \<and> DecodeToInt64 d r = Inr bi \<longrightarrow>
           IsEqual d l r = Inr (sint ai = sint bi)
         \<and> IsGreaterThan d l r = Inr (sint ai > sint bi)
         \<and> IsGreaterThanOrEqual d l r = Inr (sint ai \<ge> sint bi)
         \<and> IsLesserThan d l r = Inr (sint ai < sint bi)
         \<and> IsLesserThanOrEqual d l r = Inr (sint ai \<le> sint bi))"
proof -
  assume t: "Type l \<noteq> Type r" "Type l \<noteq> NullValue" "Type r \<noteq> NullValue"
    and i: "IsInteger (Type l)" "IsInteger (Type r)"
    and u: "overflow_undecided d l r"
  from t i have "\<not> directly_comparable l r"
    by (auto simp: directly_comparable_def)
  with t u have c: "compare d op l r = compare_numbers d op l r" for op
    by (simp add: compare_undecided)
  from i show ?thesis
    by (simp add: predicates c compare_numbers_def word_sless_alt word_sle_eq sint_eq_iff)
qed

text \<open>
  The rule at Int8(-1) against Uint16(1), at Uint64(1) against Int64(-1), and at an Int64
  whose payload is malformed.
\<close>

theorem integer_rule_witness:
  "DecodeToInt64 sample_decoders \<lparr>Type = Int8Value, Data = [255]\<rparr> = Inr (- 1)
   \<and> DecodeToInt64 sample_decoders \<lparr>Type = Uint16Value, Data = [0, 1]\<rparr> = Inr 1
   \<and> IsLesserThan sample_decoders
         \<lparr>Type = Int8Value, Data = [255]\<rparr>
         \<lparr>Type = Uint16Value, Data = [0, 1]\<rparr> = Inr True
   \<and> IsEqual sample_decoders
         \<lparr>Type = Int8Value, Data = [255]\<rparr>
         \<lparr>Type = Uint16Value, Data = [0, 1]\<rparr> = Inr False
   \<and> IsGreaterThanOrEqual sample_decoders
         \<lparr>Type = Int8Value, Data = [255]\<rparr>
         \<lparr>Type = Uint16Value, Data = [0, 1]\<rparr> = Inr False
   \<and> IsGreaterThan sample_decoders
         \<lparr>Type = Uint64Value, Data = [0, 0, 0, 0, 0, 0, 0, 1]\<rparr>
         \<lparr>Type = Int64Value, Data = [255, 255, 255, 255, 255, 255, 255, 255]\<rparr>
           = Inr True
   \<and> DecodeToInt64 sample_decoders
         \<lparr>Type = Int64Value, Data = [0, 0, 5]\<rparr>
           = Inl (DecodeError ''malformed payload'')
   \<and> IsEqual sample_decoders
         \<lparr>Type = Int8Value, Data = [255]\<rparr>
         \<lparr>Type = Int64Value, Data = [0, 0, 5]\<rparr>
           = Inl (DecodeError ''malformed payload'')"
proof -
  have d1: "DecodeToInt64 sample_decoders
        \<lparr>Type = Int8Value, Data = [255]\<rparr> = Inr (- 1)"
    by (simp add: sample_eval)
  have d2: "DecodeToInt64 sample_decoders \<lparr>Type = Uint16Value, Data = [0, 1]\<rparr> = Inr 1"
    by (simp add: sample_eval)
  have d3: "DecodeToInt64 sample_decoders
        \<lparr>Type = Uint64Value, Data = [0, 0, 0, 0, 0, 0, 0, 1]\<rparr> = Inr 1"
    by (simp add: sample_eval)
  have d4: "DecodeToInt64 sample_decoders
        \<lparr>Type = Int64Value, Data = [255, 255, 255, 255, 255, 255, 255, 255]\<rparr>
          = Inr (- 1)"
    by (simp add: sample_eval)
  have d5: "DecodeToInt64 sample_decoders
        \<lparr>Type = Int64Value, Data = [0, 0, 5]\<rparr>
          = Inl (DecodeError ''malformed payload'')"
    by (simp add: sample_eval)
  have u1: "overflow_undecided sample_decoders
        \<lparr>Type = Int8Value, Data = [255]\<rparr>
        \<lparr>Type = Uint16Value, Data = [0, 1]\<rparr>"
    by (simp add: overflow_undecided_def)
  have u2: "overflow_undecided sample_decoders
        \<lparr>Type = Uint64Value, Data = [0, 0, 0, 0, 0, 0, 0, 1]\<rparr>
        \<lparr>Type = Int64Value, Data = [255, 255, 255, 255, 255, 255, 255, 255]\<rparr>"
    by (simp add: overflow_undecided_def sample_eval MaxInt64_def)
  have u3: "overflow_undecided sample_decoders
        \<lparr>Type = Int8Value, Data = [255]\<rparr>
        \<lparr>Type = Int64Value, Data = [0, 0, 5]\<rparr>"
    by (simp add: overflow_undecided_def)
  from d1 d2 d3 d4 d5
    integer_rule [OF _ _ _ _ _ u1] integer_rule [OF _ _ _ _ _ u2] integer_rule [OF _ _ _ _ _ u3]
  show ?thesis by (simp add: predicates)
qed

section \<open>The incomparable fallback\<close>

text \<open>
  Claim C6. Let \<open>l\<close> and \<open>r\<close> be not Null, with distinct tags that are not a String with a
  Bytes and do not both satisfy IsNumber, and let the Uint64 block decide nothing (no operand
  is tagged Uint64, or both \<open>Decode\<close> calls succeed and the Uint64 does not exceed the largest
  int64). Then each of the five operators is false, without error, and IsNotEqual is true.
\<close>

theorem incomparable_fallback_rule:
  "Type l \<noteq> NullValue \<Longrightarrow> Type r \<noteq> NullValue \<Longrightarrow> Type l \<noteq> Type r \<Longrightarrow>
   \<not> (Type l = StringValue \<and> Type r = BytesValue) \<Longrightarrow>
   \<not> (Type l = BytesValue \<and> Type r = StringValue) \<Longrightarrow>
   \<not> (IsNumber (Type l) \<and> IsNumber (Type r)) \<Longrightarrow> overflow_undecided d l r \<Longrightarrow>
     IsEqual d l r = Inr False
   \<and> IsGreaterThan d l r = Inr False
   \<and> IsGreaterThanOrEqual d l r = Inr False
   \<and> IsLesserThan d l r = Inr False
   \<and> IsLesserThanOrEqual d l r = Inr False
   \<and> IsNotEqual d l r = Inr True"
proof -
  assume t: "Type l \<noteq> NullValue" "Type r \<noteq> NullValue" "Type l \<noteq> Type r"
      "\<not> (Type l = StringValue \<and> Type r = BytesValue)"
      "\<not> (Type l = BytesValue \<and> Type r = StringValue)"
    and n: "\<not> (IsNumber (Type l) \<and> IsNumber (Type r))"
    and u: "overflow_undecided d l r"
  from t have "\<not> directly_comparable l r"
    by (auto simp: directly_comparable_def)
  with t u have c: "compare d op l r = compare_numbers d op l r" for op
    by (simp add: compare_undecided)
  from n have "compare_numbers d op l r = Inr False" for op
    by (auto simp: compare_numbers_def IsNumber_def)
  with c show ?thesis
    by (simp add: predicates IsNotEqual_def)
qed

text \<open>
  The rule at String "5" against Int64(5), at Bool(true) against Float64(1.0), and at
  Uint64(1) against Bool(true).
\<close>

theorem incomparable_fallback_rule_witness:
  "IsEqual sample_decoders
        \<lparr>Type = StringValue, Data = [0x35]\<rparr>
        \<lparr>Type = Int64Value, Data = [0, 0, 0, 0, 0, 0, 0, 5]\<rparr> = Inr False
   \<and> IsGreaterThan sample_decoders
         \<lparr>Type = StringValue, Data = [0x35]\<rparr>
         \<lparr>Type = Int64Value, Data = [0, 0, 0, 0, 0, 0, 0, 5]\<rparr> = Inr False
   \<and> IsGreaterThanOrEqual sample_decoders
         \<lparr>Type = StringValue, Data = [0x35]\<rparr>
         \<lparr>Type = Int64Value, Data = [0, 0, 0, 0, 0, 0, 0, 5]\<rparr> = Inr False
   \<and> IsLesserThan sample_decoders
         \<lparr>Type = StringValue, Data = [0x35]\<rparr>
         \<lparr>Type = Int64Value, Data = [0, 0, 0, 0, 0, 0, 0, 5]\<rparr> = Inr False
   \<and> IsLesserThanOrEqual sample_decoders
         \<lparr>Type = StringValue, Data = [0x35]\<rparr>
         \<lparr>Type = Int64Value, Data = [0, 0, 0, 0, 0, 0, 0, 5]\<rparr> = Inr False
   \<and> IsNotEqual sample_decoders
         \<lparr>Type = StringValue, Data = [0x35]\<rparr>
         \<lparr>Type = Int64Value, Data = [0, 0, 0, 0, 0, 0, 0, 5]\<rparr> = Inr True
   \<and> IsEqual sample_decoders
         \<lparr>Type = BoolValue, Data = [1]\<rparr>
         \<lparr>Type = Float64Value, Data = [0x3F, 0xF0, 0, 0, 0, 0, 0, 0]\<rparr> = Inr False
   \<and> IsNotEqual sample_decoders
         \<lparr>Type = BoolValue, Data = [1]\<rparr>
         \<lparr>Type = Float64Value, Data = [0x3F, 0xF0, 0, 0, 0, 0, 0, 0]\<rparr> = Inr True
   \<and> Decode sample_decoders
         \<lparr>Type = Uint64Value, Data = [0, 0, 0, 0, 0, 0, 0, 1]\<rparr> = Inr (NUint64 1)
   \<and> IsGreaterThanOrEqual sample_decoders
         \<lparr>Type = Uint64Value, Data = [0, 0, 0, 0, 0, 0, 0, 1]\<rparr>
         \<lparr>Type = BoolValue, Data = [1]\<rparr> = Inr False"
proof -
  have d1: "Decode sample_decoders
        \<lparr>Type = Uint64Value, Data = [0, 0, 0, 0, 0, 0, 0, 1]\<rparr> = Inr (NUint64 1)"
    by (simp add: sample_eval)
  have u1: "overflow_undecided sample_decoders
        \<lparr>Type = StringValue, Data = [0x35]\<rparr>
        \<lparr>Type = Int64Value, Data = [0, 0, 0, 0, 0, 0, 0, 5]\<rparr>"
    by (simp add: overflow_undecided_def)
  have u2: "overflow_undecided sample_decoders
        \<lparr>Type = BoolValue, Data = [1]\<rparr>
        \<lparr>Type = Float64Value, Data = [0x3F, 0xF0, 0, 0, 0, 0, 0, 0]\<rparr>"
    by (simp add: overflow_undecided_def)
  have u3: "overflow_undecided sample_decoders
        \<lparr>Type = Uint64Value, Data = [0, 0, 0, 0, 0, 0, 0, 1]\<rparr>
        \<lparr>Type = BoolValue, Data = [1]\<rparr>"
    by (simp add: overflow_undecided_def sample_eval MaxInt64_def)
  from d1
    incomparable_fallback_rule [OF _ _ _ _ _ _ u1]
    incomparable_fallback_rule [OF _ _ _ _ _ _ u2]
    incomparable_fallback_rule [OF _ _ _ _ _ _ u3]
  show ?thesis by (simp add: IsNumber_def)
qed

section \<open>The negation law\<close>

text \<open>
  Claim C7. If IsEqual succeeds with the boolean \<open>x\<close>, IsNotEqual succeeds with its negation;
  if IsEqual fails with an error, IsNotEqual fails with that same error.
\<close>

theorem negation_law:
  "(IsEqual d a b = Inr x \<longrightarrow> IsNotEqual d a b = Inr (\<not> x))
   \<and> (IsEqual d a b = Inl e \<longrightarrow> IsNotEqual d a b = Inl e)"
  by (simp add: IsNotEqual_def)

text \<open>
  The law at Int8(5) against Int64(5), and at Int8(5) against an Int64 whose payload is
  malformed.
\<close>

theorem negation_law_witness:
  "IsEqual sample_decoders \<lparr>Type = Int8Value, Data = [5]\<rparr>
      \<lparr>Type = Int64Value, Data = [0, 0, 0, 0, 0, 0, 0, 5]\<rparr> = Inr True
   \<and> IsNotEqual sample_decoders \<lparr>Type = Int8Value, Data = [5]\<rparr>
      \<lparr>Type = Int64Value, Data = [0, 0, 0, 0, 0, 0, 0, 5]\<rparr> = Inr False
   \<and> IsEqual sample_decoders \<lparr>Type = Int8Value, Data = [5]\<rparr>
      \<lparr>Type = Int64Value, Data = [0, 0, 5]\<rparr> = Inl (DecodeError ''malformed payload'')
   \<and> IsNotEqual sample_decoders \<lparr>Type = Int8Value, Data = [5]\<rparr>
      \<lparr>Type = Int64Value, Data = [0, 0, 5]\<rparr> = Inl (DecodeError ''malformed payload'')"
proof -
  have ok: "IsEqual sample_decoders \<lparr>Type = Int8Value, Data = [5]\<rparr>
      \<lparr>Type = Int64Value, Data = [0, 0, 0, 0, 0, 0, 0, 5]\<rparr> = Inr True"
    by (simp add: compare_eval sample_eval)
  have err: "IsEqual sample_decoders \<lparr>Type = Int8Value, Data = [5]\<rparr>
      \<lparr>Type = Int64Value, Data = [0, 0, 5]\<rparr> = Inl (DecodeError ''malformed payload'')"
    by (simp add: compare_eval sample_eval)
  from ok err
    negation_law [of sample_decoders "\<lparr>Type = Int8Value, Data = [5]\<rparr>"
      "\<lparr>Type = Int64Value, Data = [0, 0, 0, 0, 0, 0, 0, 5]\<rparr>" True]
    negation_law [of sample_decoders "\<lparr>Type = Int8Value, Data = [5]\<rparr>"
      "\<lparr>Type = Int64Value, Data = [0, 0, 5]\<rparr>" _ "DecodeError ''malformed payload''"]
  show ?thesis by simp
qed

section \<open>Exactly one of greater, lesser and equal\<close>

text \<open>
  Claim C8 names two exceptions only, a NaN operand and the incomparable fallback. Null
  against Int64(5) is a third: every predicate succeeds, none of IsGreaterThan, IsLesserThan
  and IsEqual is true, no operand is a Float64, and the pair is decided by the nil rule, not
  by the fallback.
\<close>

theorem trichotomy_counterexample:
  "IsGreaterThan sample_decoders
        \<lparr>Type = NullValue, Data = []\<rparr>
        \<lparr>Type = Int64Value, Data = [0, 0, 0, 0, 0, 0, 0, 5]\<rparr> = Inr False
   \<and> IsLesserThan sample_decoders
         \<lparr>Type = NullValue, Data = []\<rparr>
         \<lparr>Type = Int64Value, Data = [0, 0, 0, 0, 0, 0, 0, 5]\<rparr> = Inr False
   \<and> IsEqual sample_decoders
         \<lparr>Type = NullValue, Data = []\<rparr>
         \<lparr>Type = Int64Value, Data = [0, 0, 0, 0, 0, 0, 0, 5]\<rparr> = Inr False
   \<and> IsGreaterThanOrEqual sample_decoders
         \<lparr>Type = NullValue, Data = []\<rparr>
         \<lparr>Type = Int64Value, Data = [0, 0, 0, 0, 0, 0, 0, 5]\<rparr> = Inr False
   \<and> IsLesserThanOrEqual sample_decoders
         \<lparr>Type = NullValue, Data = []\<rparr>
         \<lparr>Type = Int64Value, Data = [0, 0, 0, 0, 0, 0, 0, 5]\<rparr> = Inr False
   \<and> IsNotEqual sample_decoders
         \<lparr>Type = NullValue, Data = []\<rparr>
         \<lparr>Type = Int64Value, Data = [0, 0, 0, 0, 0, 0, 0, 5]\<rparr> = Inr True
   \<and> Type \<lparr>Type = NullValue, Data = []\<rparr> \<noteq> Float64Value
   \<and> Type
         \<lparr>Type = Int64Value, Data = [0, 0, 0, 0, 0, 0, 0, 5]\<rparr> \<noteq> Float64Value
   \<and> \<not> nan_comparison sample_decoders
         \<lparr>Type = NullValue, Data = []\<rparr>
         \<lparr>Type = Int64Value, Data = [0, 0, 0, 0, 0, 0, 0, 5]\<rparr>
   \<and> \<not> incomparable_fallback sample_decoders
         \<lparr>Type = NullValue, Data = []\<rparr>
         \<lparr>Type = Int64Value, Data = [0, 0, 0, 0, 0, 0, 0, 5]\<rparr>"
  by (simp add: compare_eval nan_comparison_def incomparable_fallback_def)

text \<open>
  Claim C8, as amended. For every pair on which IsGreaterThan, IsLesserThan and IsEqual
  succeed, exactly one of the three is true, with three exceptions, in each of which all three
  are false: exactly one of the two operands is Null; the floating-point comparison is reached
  and one of the two decoded floats is a NaN; the incomparable fallback is reached.
\<close>

theorem trichotomy_with_exceptions:
  "IsGreaterThan d a b = Inr g \<Longrightarrow> IsLesserThan d a b = Inr lt \<Longrightarrow> IsEqual d a b = Inr e \<Longrightarrow>
   (if one_null a b \<or> nan_comparison d a b \<or> incomparable_fallback d a b
    then \<not> g \<and> \<not> lt \<and> \<not> e
    else (g \<and> \<not> lt \<and> \<not> e) \<or> (\<not> g \<and> lt \<and> \<not> e) \<or> (\<not> g \<and> \<not> lt \<and> e))"
  using compare_shape [of d a b]
proof (elim disjE exE conjE)
  fix err assume "\<forall>op. compare d op a b = Inl err" and "IsEqual d a b = Inr e"
  then show ?thesis by (simp add: predicates)
next
  fix g' lt' e'
  assume s: "\<forall>op. compare d op a b =
            Inr (case op of
                   operatorEq \<Rightarrow> e'
                 | operatorGt \<Rightarrow> g'
                 | operatorGte \<Rightarrow> g' \<or> e'
                 | operatorLt \<Rightarrow> lt'
                 | operatorLte \<Rightarrow> lt' \<or> e')"
    and x: "\<not> (g' \<and> lt')" "\<not> (g' \<and> e')" "\<not> (lt' \<and> e')"
      "g' \<or> lt' \<or> e' \<longleftrightarrow>
         \<not> (one_null a b \<or> nan_comparison d a b \<or> incomparable_fallback d a b)"
    and r: "IsGreaterThan d a b = Inr g" "IsLesserThan d a b = Inr lt" "IsEqual d a b = Inr e"
  from s r have "g = g'" "lt = lt'" "e = e'"
    by (simp_all add: predicates)
  with x show ?thesis by auto
qed

text \<open>
  The amended claim at Int8(-1) against Uint16(1), where exactly one predicate holds, and at
  one pair for each exception: Null against Int64(5), a NaN against Int8(1), and String "5"
  against Int64(5).
\<close>

theorem trichotomy_with_exceptions_witness:
  "IsGreaterThan sample_decoders \<lparr>Type = Int8Value, Data = [255]\<rparr>
        \<lparr>Type = Uint16Value, Data = [0, 1]\<rparr> = Inr False
   \<and> IsLesserThan sample_decoders \<lparr>Type = Int8Value, Data = [255]\<rparr>
        \<lparr>Type = Uint16Value, Data = [0, 1]\<rparr> = Inr True
   \<and> IsEqual sample_decoders \<lparr>Type = Int8Value, Data = [255]\<rparr>
        \<lparr>Type = Uint16Value, Data = [0, 1]\<rparr> = Inr False
   \<and> \<not> one_null \<lparr>Type = Int8Value, Data = [255]\<rparr>
        \<lparr>Type = Uint16Value, Data = [0, 1]\<rparr>
   \<and> \<not> nan_comparison sample_decoders \<lparr>Type = Int8Value, Data = [255]\<rparr>
        \<lparr>Type = Uint16Value, Data = [0, 1]\<rparr>
   \<and> \<not> incomparable_fallback sample_decoders \<lparr>Type = Int8Value, Data = [255]\<rparr>
        \<lparr>Type = Uint16Value, Data = [0, 1]\<rparr>
   \<and> one_null \<lparr>Type = NullValue, Data = []\<rparr>
        \<lparr>Type = Int64Value, Data = [0, 0, 0, 0, 0, 0, 0, 5]\<rparr>
   \<and> IsGreaterThan sample_decoders \<lparr>Type = NullValue, Data = []\<rparr>
        \<lparr>Type = Int64Value, Data = [0, 0, 0, 0, 0, 0, 0, 5]\<rparr> = Inr False
   \<and> IsLesserThan sample_decoders \<lparr>Type = NullValue, Data = []\<rparr>
        \<lparr>Type = Int64Value, Data = [0, 0, 0, 0, 0, 0, 0, 5]\<rparr> = Inr False
   \<and> IsEqual sample_decoders \<lparr>Type = NullValue, Data = []\<rparr>
        \<lparr>Type = Int64Value, Data = [0, 0, 0, 0, 0, 0, 0, 5]\<rparr> = Inr False
   \<and> nan_comparison sample_decoders \<lparr>Type = Float64Value, Data = [0x7F, 0xF8, 0, 0, 0, 0, 0, 0]\<rparr>
        \<lparr>Type = Int8Value, Data = [1]\<rparr>
   \<and> IsGreaterThan sample_decoders \<lparr>Type = Float64Value, Data = [0x7F, 0xF8, 0, 0, 0, 0, 0, 0]\<rparr>
        \<lparr>Type = Int8Value, Data = [1]\<rparr> = Inr False
   \<and> IsLesserThan sample_decoders \<lparr>Type = Float64Value, Data = [0x7F, 0xF8, 0, 0, 0, 0, 0, 0]\<rparr>
        \<lparr>Type = Int8Value, Data = [1]\<rparr> = Inr False
   \<and> IsEqual sample_decoders \<lparr>Type = Float64Value, Data = [0x7F, 0xF8, 0, 0, 0, 0, 0, 0]\<rparr>
        \<lparr>Type = Int8Value, Data = [1]\<rparr> = Inr False
   \<and> incomparable_fallback sample_decoders \<lparr>Type = StringValue, Data = [0x35]\<rparr>
        \<lparr>Type = Int64Value, Data = [0, 0, 0, 0, 0, 0, 0, 5]\<rparr>
   \<and> IsGreaterThan sample_decoders \<lparr>Type = StringValue, Data = [0x35]\<rparr>
        \<lparr>Type = Int64Value, Data = [0, 0, 0, 0, 0, 0, 0, 5]\<rparr> = Inr False
   \<and> IsLesserThan sample_decoders \<lparr>Type = StringValue, Data = [0x35]\<rparr>
        \<lparr>Type = Int64Value, Data = [0, 0, 0, 0, 0, 0, 0, 5]\<rparr> = Inr False
   \<and> IsEqual sample_decoders \<lparr>Type = StringValue, Data = [0x35]\<rparr>
        \<lparr>Type = Int64Value, Data = [0, 0, 0, 0, 0, 0, 0, 5]\<rparr> = Inr False"
proof -
  have g1: "IsGreaterThan sample_decoders \<lparr>Type = Int8Value, Data = [255]\<rparr>
        \<lparr>Type = Uint16Value, Data = [0, 1]\<rparr> = Inr False"
    by (simp add: compare_eval sample_eval word_sless_alt)
  have l1: "IsLesserThan sample_decoders \<lparr>Type = Int8Value, Data = [255]\<rparr>
        \<lparr>Type = Uint16Value, Data = [0, 1]\<rparr> = Inr True"
    by (simp add: compare_eval sample_eval word_sless_alt)
  have e1: "IsEqual sample_decoders \<lparr>Type = Int8Value, Data = [255]\<rparr>
        \<lparr>Type = Uint16Value, Data = [0, 1]\<rparr> = Inr False"
    by (simp add: compare_eval sample_eval)
  have g2: "IsGreaterThan sample_decoders \<lparr>Type = NullValue, Data = []\<rparr>
        \<lparr>Type = Int64Value, Data = [0, 0, 0, 0, 0, 0, 0, 5]\<rparr> = Inr False"
    by (simp add: compare_eval)
  have l2: "IsLesserThan sample_decoders \<lparr>Type = NullValue, Data = []\<rparr>
        \<lparr>Type = Int64Value, Data = [0, 0, 0, 0, 0, 0, 0, 5]\<rparr> = Inr False"
    by (simp add: compare_eval)
  have e2: "IsEqual sample_decoders \<lparr>Type = NullValue, Data = []\<rparr>
        \<lparr>Type = Int64Value, Data = [0, 0, 0, 0, 0, 0, 0, 5]\<rparr> = Inr False"
    by (simp add: compare_eval)
  have x2: "one_null \<lparr>Type = NullValue, Data = []\<rparr>
        \<lparr>Type = Int64Value, Data = [0, 0, 0, 0, 0, 0, 0, 5]\<rparr>"
    by (simp add: one_null_def)
  have g3: "IsGreaterThan sample_decoders \<lparr>Type = Float64Value, Data = [0x7F, 0xF8, 0, 0, 0, 0, 0, 0]\<rparr>
        \<lparr>Type = Int8Value, Data = [1]\<rparr> = Inr False"
    by (simp add: compare_eval sample_eval f64_eval)
  have l3: "IsLesserThan sample_decoders \<lparr>Type = Float64Value, Data = [0x7F, 0xF8, 0, 0, 0, 0, 0, 0]\<rparr>
        \<lparr>Type = Int8Value, Data = [1]\<rparr> = Inr False"
    by (simp add: compare_eval sample_eval f64_eval)
  have e3: "IsEqual sample_decoders \<lparr>Type = Float64Value, Data = [0x7F, 0xF8, 0, 0, 0, 0, 0, 0]\<rparr>
        \<lparr>Type = Int8Value, Data = [1]\<rparr> = Inr False"
    by (simp add: compare_eval sample_eval f64_eval)
  have x3: "nan_comparison sample_decoders \<lparr>Type = Float64Value, Data = [0x7F, 0xF8, 0, 0, 0, 0, 0, 0]\<rparr>
        \<lparr>Type = Int8Value, Data = [1]\<rparr>"
    by (simp add: nan_comparison_def overflow_undecided_def directly_comparable_def
          IsNumber_def sample_eval f64_eval)
  have g4: "IsGreaterThan sample_decoders \<lparr>Type = StringValue, Data = [0x35]\<rparr>
        \<lparr>Type = Int64Value, Data = [0, 0, 0, 0, 0, 0, 0, 5]\<rparr> = Inr False"
    by (simp add: compare_eval)
  have l4: "IsLesserThan sample_decoders \<lparr>Type = StringValue, Data = [0x35]\<rparr>
        \<lparr>Type = Int64Value, Data = [0, 0, 0, 0, 0, 0, 0, 5]\<rparr> = Inr False"
    by (simp add: compare_eval)
  have e4: "IsEqual sample_decoders \<lparr>Type = StringValue, Data = [0x35]\<rparr>
        \<lparr>Type = Int64Value, Data = [0, 0, 0, 0, 0, 0, 0, 5]\<rparr> = Inr False"
    by (simp add: compare_eval)
  have x4: "incomparable_fallback sample_decoders \<lparr>Type = StringValue, Data = [0x35]\<rparr>
        \<lparr>Type = Int64Value, Data = [0, 0, 0, 0, 0, 0, 0, 5]\<rparr>"
    by (simp add: incomparable_fallback_def overflow_undecided_def directly_comparable_def
          IsNumber_def)
  from trichotomy_with_exceptions [OF g1 l1 e1]
  have x1: "\<not> one_null \<lparr>Type = Int8Value, Data = [255]\<rparr>
        \<lparr>Type = Uint16Value, Data = [0, 1]\<rparr>
      \<and> \<not> nan_comparison sample_decoders \<lparr>Type = Int8Value, Data = [255]\<rparr>
        \<lparr>Type = Uint16Value, Data = [0, 1]\<rparr>
      \<and> \<not> incomparable_fallback sample_decoders \<lparr>Type = Int8Value, Data = [255]\<rparr>
        \<lparr>Type = Uint16Value, Data = [0, 1]\<rparr>"
    by (simp split: if_splits)
  from g1 l1 e1 x1 g2 l2 e2 x2 g3 l3 e3 x3 g4 l4 e4 x4
    trichotomy_with_exceptions [OF g2 l2 e2]
    trichotomy_with_exceptions [OF g3 l3 e3]
    trichotomy_with_exceptions [OF g4 l4 e4]
  show ?thesis by simp
qed

section \<open>The Uint64 overflow rule against a float\<close>

text \<open>
  Claim C9. When one operand is a Uint64 whose number exceeds the largest int64, the other is
  a Float64, and both \<open>Decode\<close> calls succeed, the result depends only on the side of the
  Uint64 operand: IsEqual is false, IsGreaterThan and IsGreaterThanOrEqual are true exactly
  when the Uint64 is on the left, IsLesserThan and IsLesserThanOrEqual exactly when it is on
  the right, whatever the float is.
\<close>

theorem uint64_overflow_ignores_float:
  "(Type l = Uint64Value \<and> Type r = Float64Value)
     \<or> (Type l = Float64Value \<and> Type r = Uint64Value) \<Longrightarrow>
   Decode d l = Inr lv \<Longrightarrow> Decode d r = Inr rv \<Longrightarrow>
   (if Type l = Uint64Value then lv else rv) = NUint64 ui \<Longrightarrow>
   9223372036854775807 < unat ui \<Longrightarrow>
     IsEqual d l r = Inr False
   \<and> IsGreaterThan d l r = Inr (Type l = Uint64Value)
   \<and> IsGreaterThanOrEqual d l r = Inr (Type l = Uint64Value)
   \<and> IsLesserThan d l r = Inr (Type r = Uint64Value)
   \<and> IsLesserThanOrEqual d l r = Inr (Type r = Uint64Value)"
  by (auto simp: predicates compare_def uint64_block_def exceeds_MaxInt64)

text \<open>
  The claim at Uint64(2^63) against the Float64 of the same number (IsEqual is false), against
  the larger Float64 2^70 (IsGreaterThan is true), and against a NaN.
\<close>

theorem uint64_overflow_ignores_float_witness:
  "Decode sample_decoders
        \<lparr>Type = Uint64Value, Data = [128, 0, 0, 0, 0, 0, 0, 0]\<rparr>
          = Inr (NUint64 (2 ^ 63))
   \<and> DecodeToFloat64 sample_decoders
         \<lparr>Type = Float64Value, Data = [0x43, 0xE0, 0, 0, 0, 0, 0, 0]\<rparr>
           = Inr (f64_of_int (2 ^ 63))
   \<and> IsEqual sample_decoders
         \<lparr>Type = Uint64Value, Data = [128, 0, 0, 0, 0, 0, 0, 0]\<rparr>
         \<lparr>Type = Float64Value, Data = [0x43, 0xE0, 0, 0, 0, 0, 0, 0]\<rparr> = Inr False
   \<and> DecodeToFloat64 sample_decoders
         \<lparr>Type = Float64Value, Data = [0x44, 0x50, 0, 0, 0, 0, 0, 0]\<rparr>
           = Inr 0x4450000000000000
   \<and> f64_lt (f64_of_int (2 ^ 63)) 0x4450000000000000
   \<and> IsGreaterThan sample_decoders
         \<lparr>Type = Uint64Value, Data = [128, 0, 0, 0, 0, 0, 0, 0]\<rparr>
         \<lparr>Type = Float64Value, Data = [0x44, 0x50, 0, 0, 0, 0, 0, 0]\<rparr> = Inr True
   \<and> IsLesserThan sample_decoders
         \<lparr>Type = Float64Value, Data = [0x44, 0x50, 0, 0, 0, 0, 0, 0]\<rparr>
         \<lparr>Type = Uint64Value, Data = [128, 0, 0, 0, 0, 0, 0, 0]\<rparr> = Inr True
   \<and> DecodeToFloat64 sample_decoders
         \<lparr>Type = Float64Value, Data = [0x7F, 0xF8, 0, 0, 0, 0, 0, 0]\<rparr>
           = Inr 0x7FF8000000000000
   \<and> f64_isNaN 0x7FF8000000000000
   \<and> IsGreaterThan sample_decoders
         \<lparr>Type = Uint64Value, Data = [128, 0, 0, 0, 0, 0, 0, 0]\<rparr>
         \<lparr>Type = Float64Value, Data = [0x7F, 0xF8, 0, 0, 0, 0, 0, 0]\<rparr> = Inr True
   \<and> IsEqual sample_decoders
         \<lparr>Type = Uint64Value, Data = [128, 0, 0, 0, 0, 0, 0, 0]\<rparr>
         \<lparr>Type = Float64Value, Data = [0x7F, 0xF8, 0, 0, 0, 0, 0, 0]\<rparr> = Inr False
   \<and> IsLesserThanOrEqual sample_decoders
         \<lparr>Type = Float64Value, Data = [0x7F, 0xF8, 0, 0, 0, 0, 0, 0]\<rparr>
         \<lparr>Type = Uint64Value, Data = [128, 0, 0, 0, 0, 0, 0, 0]\<rparr> = Inr True"
proof -
  have d1: "Decode sample_decoders
        \<lparr>Type = Uint64Value, Data = [128, 0, 0, 0, 0, 0, 0, 0]\<rparr>
          = Inr (NUint64 (2 ^ 63))"
    by (simp add: sample_eval)
  have d2: "Decode sample_decoders
        \<lparr>Type = Float64Value, Data = [0x43, 0xE0, 0, 0, 0, 0, 0, 0]\<rparr>
          = Inr (NFloat64 0x43E0000000000000)"
    by (simp add: sample_eval)
  have d3: "Decode sample_decoders
        \<lparr>Type = Float64Value, Data = [0x44, 0x50, 0, 0, 0, 0, 0, 0]\<rparr>
          = Inr (NFloat64 0x4450000000000000)"
    by (simp add: sample_eval)
  have d4: "Decode sample_decoders
        \<lparr>Type = Float64Value, Data = [0x7F, 0xF8, 0, 0, 0, 0, 0, 0]\<rparr>
          = Inr (NFloat64 0x7FF8000000000000)"
    by (simp add: sample_eval)
  have f1: "DecodeToFloat64 sample_decoders
        \<lparr>Type = Float64Value, Data = [0x43, 0xE0, 0, 0, 0, 0, 0, 0]\<rparr>
          = Inr (f64_of_int (2 ^ 63))"
    by (simp add: sample_eval)
  have f2: "DecodeToFloat64 sample_decoders
        \<lparr>Type = Float64Value, Data = [0x44, 0x50, 0, 0, 0, 0, 0, 0]\<rparr>
          = Inr 0x4450000000000000"
    by (simp add: sample_eval)
  have f3: "DecodeToFloat64 sample_decoders
        \<lparr>Type = Float64Value, Data = [0x7F, 0xF8, 0, 0, 0, 0, 0, 0]\<rparr>
          = Inr 0x7FF8000000000000"
    by (simp add: sample_eval)
  have f4: "f64_lt (f64_of_int (2 ^ 63)) 0x4450000000000000"
    by (simp add: sample_eval f64_eval)
  have f5: "f64_isNaN 0x7FF8000000000000"
    by (simp add: f64_eval)
  have big: "9223372036854775807 < unat (2 ^ 63 :: 64 word)"
    by simp
  from d1 d2 d3 d4 f1 f2 f3 f4 f5 big
    uint64_overflow_ignores_float [of
      "\<lparr>Type = Uint64Value, Data = [128, 0, 0, 0, 0, 0, 0, 0]\<rparr>"
      "\<lparr>Type = Float64Value, Data = [0x43, 0xE0, 0, 0, 0, 0, 0, 0]\<rparr>" sample_decoders
      "NUint64 (2 ^ 63)" "NFloat64 0x43E0000000000000" "2 ^ 63"]
    uint64_overflow_ignores_float [of
      "\<lparr>Type = Uint64Value, Data = [128, 0, 0, 0, 0, 0, 0, 0]\<rparr>"
      "\<lparr>Type = Float64Value, Data = [0x44, 0x50, 0, 0, 0, 0, 0, 0]\<rparr>" sample_decoders
      "NUint64 (2 ^ 63)" "NFloat64 0x4450000000000000" "2 ^ 63"]
    uint64_overflow_ignores_float [of
      "\<lparr>Type = Float64Value, Data = [0x44, 0x50, 0, 0, 0, 0, 0, 0]\<rparr>"
      "\<lparr>Type = Uint64Value, Data = [128, 0, 0, 0, 0, 0, 0, 0]\<rparr>" sample_decoders
      "NFloat64 0x4450000000000000" "NUint64 (2 ^ 63)" "2 ^ 63"]
    uint64_overflow_ignores_float [of
      "\<lparr>Type = Uint64Value, Data = [128, 0, 0, 0, 0, 0, 0, 0]\<rparr>"
      "\<lparr>Type = Float64Value, Data = [0x7F, 0xF8, 0, 0, 0, 0, 0, 0]\<rparr>" sample_decoders
      "NUint64 (2 ^ 63)" "NFloat64 0x7FF8000000000000" "2 ^ 63"]
    uint64_overflow_ignores_float [of
      "\<lparr>Type = Float64Value, Data = [0x7F, 0xF8, 0, 0, 0, 0, 0, 0]\<rparr>"
      "\<lparr>Type = Uint64Value, Data = [128, 0, 0, 0, 0, 0, 0, 0]\<rparr>" sample_decoders
      "NFloat64 0x7FF8000000000000" "NUint64 (2 ^ 63)" "2 ^ 63"]
  show ?thesis by simp
qed

section \<open>Greater-or-equal and lesser-or-equal\<close>

text \<open>
  Claim C10. Where the predicates succeed, IsGreaterThanOrEqual is true exactly when
  IsGreaterThan or IsEqual is, and IsLesserThanOrEqual exactly when IsLesserThan or IsEqual
  is, whichever rule of \<open>compare\<close> decides the pair.
\<close>

theorem or_equal_decomposition:
  "(IsGreaterThan d a b = Inr g \<and> IsEqual d a b = Inr e
      \<and> IsGreaterThanOrEqual d a b = Inr ge \<longrightarrow> (ge \<longleftrightarrow> g \<or> e))
   \<and> (IsLesserThan d a b = Inr lt \<and> IsEqual d a b = Inr e
      \<and> IsLesserThanOrEqual d a b = Inr le \<longrightarrow> (le \<longleftrightarrow> lt \<or> e))"
  using compare_shape [of d a b]
proof (elim disjE exE conjE)
  fix err assume "\<forall>op. compare d op a b = Inl err"
  then show ?thesis by (simp add: predicates)
next
  fix g' lt' e'
  assume "\<forall>op. compare d op a b =
            Inr (case op of
                   operatorEq \<Rightarrow> e'
                 | operatorGt \<Rightarrow> g'
                 | operatorGte \<Rightarrow> g' \<or> e'
                 | operatorLt \<Rightarrow> lt'
                 | operatorLte \<Rightarrow> lt' \<or> e')"
  then show ?thesis by (auto simp: predicates)
qed

text \<open>
  The claim at Int8(-1) against Uint16(1).
\<close>

theorem or_equal_decomposition_witness:
  "IsGreaterThan sample_decoders \<lparr>Type = Int8Value, Data = [255]\<rparr>
      \<lparr>Type = Uint16Value, Data = [0, 1]\<rparr> = Inr False
   \<and> IsLesserThan sample_decoders \<lparr>Type = Int8Value, Data = [255]\<rparr>
      \<lparr>Type = Uint16Value, Data = [0, 1]\<rparr> = Inr True
   \<and> IsEqual sample_decoders \<lparr>Type = Int8Value, Data = [255]\<rparr>
      \<lparr>Type = Uint16Value, Data = [0, 1]\<rparr> = Inr False
   \<and> IsGreaterThanOrEqual sample_decoders \<lparr>Type = Int8Value, Data = [255]\<rparr>
      \<lparr>Type = Uint16Value, Data = [0, 1]\<rparr> = Inr False
   \<and> IsLesserThanOrEqual sample_decoders \<lparr>Type = Int8Value, Data = [255]\<rparr>
      \<lparr>Type = Uint16Value, Data = [0, 1]\<rparr> = Inr True"
proof -
  have g: "IsGreaterThan sample_decoders \<lparr>Type = Int8Value, Data = [255]\<rparr>
      \<lparr>Type = Uint16Value, Data = [0, 1]\<rparr> = Inr False"
    by (simp add: compare_eval sample_eval word_sless_alt)
  have l: "IsLesserThan sample_decoders \<lparr>Type = Int8Value, Data = [255]\<rparr>
      \<lparr>Type = Uint16Value, Data = [0, 1]\<rparr> = Inr True"
    by (simp add: compare_eval sample_eval word_sless_alt)
  have e: "IsEqual sample_decoders \<lparr>Type = Int8Value, Data = [255]\<rparr>
      \<lparr>Type = Uint16Value, Data = [0, 1]\<rparr> = Inr False"
    by (simp add: compare_eval sample_eval)
  have ge: "IsGreaterThanOrEqual sample_decoders \<lparr>Type = Int8Value, Data = [255]\<rparr>
      \<lparr>Type = Uint16Value, Data = [0, 1]\<rparr> = Inr False"
    by (simp add: compare_eval sample_eval word_sle_eq)
  have le: "IsLesserThanOrEqual sample_decoders \<lparr>Type = Int8Value, Data = [255]\<rparr>
      \<lparr>Type = Uint16Value, Data = [0, 1]\<rparr> = Inr True"
    by (simp add: compare_eval sample_eval word_sle_eq)
  from g l e ge le
    or_equal_decomposition [of sample_decoders "\<lparr>Type = Int8Value, Data = [255]\<rparr>"
      "\<lparr>Type = Uint16Value, Data = [0, 1]\<rparr>" False False False True True]
  show ?thesis by simp
qed

end
